theory Spec2Isabelle
  imports Complex_Main "HOL-Library.Log_Nat"
begin

section \<open>The RS274D command interpreter of gerbview (rs274d.cpp)\<close>

text \<open>
  The theory embeds the functions of \<^verbatim>\<open>src/gerbview/rs274d.cpp\<close>:
  \<^verbatim>\<open>fillFlashedGBRITEM\<close>, \<^verbatim>\<open>fillLineGBRITEM\<close>, \<^verbatim>\<open>fillArcGBRITEM\<close>,
  \<^verbatim>\<open>fillArcPOLY\<close>, \<^verbatim>\<open>DCodeNumber\<close>, \<^verbatim>\<open>Execute_G_Command\<close> and
  \<^verbatim>\<open>Execute_DCODE_Command\<close>.

  Conventions of the embedding:
  \<^item> C++ \<^verbatim>\<open>int\<close> is a 32-bit two's complement integer: a value of type \<^typ>\<open>int\<close>
    between \<open>- 2 ^ 31\<close> and \<open>2 ^ 31 - 1\<close>, with the wrap-around of every sum, difference,
    product and negation written out (\<open>wrap32\<close>);
  \<^item> a C++ \<^verbatim>\<open>double\<close> (only the angles of \<^verbatim>\<open>fillArcPOLY\<close>) is the real number it
    stands for, and every floating-point sum, difference and quotient is the exact result
    rounded to a double by \<open>round_double\<close>; a conversion of a \<^verbatim>\<open>double\<close> to an
    \<^verbatim>\<open>int\<close> that does not fit is a failure;
  \<^item> a null-pointer dereference, a failed assertion or a read past the end of a buffer
    is the result \<^term>\<open>None\<close>;
  \<^item> an object mutated through a pointer is passed in and returned updated.
\<close>

subsection \<open>Points and sizes\<close>

text \<open>\<^verbatim>\<open>wxPoint\<close>, \<^verbatim>\<open>wxSize\<close> and \<^verbatim>\<open>VECTOR2I\<close> are pairs of \<^verbatim>\<open>int\<close> members
  \<^verbatim>\<open>x\<close> and \<^verbatim>\<open>y\<close>.\<close>

record wxPoint =
  x :: int
  y :: int

type_synonym wxSize = wxPoint
type_synonym VECTOR2I = wxPoint

text \<open>The values of a 32-bit \<^verbatim>\<open>int\<close>, and the value that the 32-bit result of an
  arithmetic operation has when the exact result is \<open>v\<close>.\<close>

definition int32 :: "int \<Rightarrow> bool" where
  "int32 v = (- (2 ^ 31) \<le> v \<and> v < 2 ^ 31)"

definition wrap32 :: "int \<Rightarrow> int" where
  "wrap32 v = (v + 2 ^ 31) mod 2 ^ 32 - 2 ^ 31"

definition wxPoint_ok :: "wxPoint \<Rightarrow> bool" where
  "wxPoint_ok p = (int32 (x p) \<and> int32 (y p))"

text \<open>\<^verbatim>\<open>operator+\<close>, binary \<^verbatim>\<open>operator-\<close> and unary \<^verbatim>\<open>operator-\<close> of \<^verbatim>\<open>wxPoint\<close>.\<close>

definition pt_add :: "wxPoint \<Rightarrow> wxPoint \<Rightarrow> wxPoint" where
  "pt_add p q = \<lparr>x = wrap32 (x p + x q), y = wrap32 (y p + y q)\<rparr>"

definition pt_sub :: "wxPoint \<Rightarrow> wxPoint \<Rightarrow> wxPoint" where
  "pt_sub p q = \<lparr>x = wrap32 (x p - x q), y = wrap32 (y p - y q)\<rparr>"

definition pt_neg :: "wxPoint \<Rightarrow> wxPoint" where
  "pt_neg p = \<lparr>x = wrap32 (- x p), y = wrap32 (- y p)\<rparr>"

subsection \<open>Apertures and draw items\<close>

datatype APERTURE_T = APT_CIRCLE | APT_RECT | APT_OVAL | APT_POLYGON | APT_MACRO

text \<open>The members of \<^verbatim>\<open>D_CODE\<close> that rs274d.cpp reads or writes (\<^verbatim>\<open>m_Size\<close>,
  \<^verbatim>\<open>m_Num_Dcode\<close>, \<^verbatim>\<open>m_Shape\<close>, \<^verbatim>\<open>m_InUse\<close>), prefixed to keep them apart from
  the members of the same name of \<^verbatim>\<open>GERBER_DRAW_ITEM\<close>.\<close>

record D_CODE =
  D_CODE_m_Size :: wxSize
  D_CODE_m_Num_Dcode :: int
  D_CODE_m_Shape :: APERTURE_T
  D_CODE_m_InUse :: bool

datatype GBR_BASIC_SHAPE_T =
  GBR_SEGMENT | GBR_ARC | GBR_POLYGON
  | GBR_SPOT_CIRCLE | GBR_SPOT_RECT | GBR_SPOT_OVAL | GBR_SPOT_POLY | GBR_SPOT_MACRO

text \<open>The net attribute dictionary and the aperture function are opaque payloads that
  the interpreter only copies.\<close>

type_synonym GBR_NETLIST_METADATA = string

text \<open>\<^verbatim>\<open>GERBER_DRAW_ITEM\<close>. The pointer \<^verbatim>\<open>m_GerberImageFile\<close> is only ever tested
  against null, so the field records whether it is set. \<^verbatim>\<open>m_Polygon\<close> is a
  \<^verbatim>\<open>SHAPE_POLY_SET\<close>, here the list of its outlines (rs274d.cpp never adds a hole).\<close>

record GERBER_DRAW_ITEM =
  m_GerberImageFile :: bool
  m_Shape :: GBR_BASIC_SHAPE_T
  m_Size :: wxSize
  m_Flashed :: bool
  m_Start :: wxPoint
  m_End :: wxPoint
  m_ArcCentre :: wxPoint
  m_DCode :: int
  m_LayerNegative :: bool
  m_NetAttributes :: GBR_NETLIST_METADATA
  m_AperFunction :: string
  m_Polygon :: "VECTOR2I list list"

text \<open>Modelled from the spec: the constructor \<^verbatim>\<open>GERBER_DRAW_ITEM( GERBER_FILE_IMAGE* )\<close>
  is declared outside src/. By the data model of the spec (section 3) an item is a Line,
  an Arc, a Flash or a Region; \<^verbatim>\<open>fillLineGBRITEM\<close> never writes \<^verbatim>\<open>m_Shape\<close>, so a
  fresh item is a Line (\<^term>\<open>GBR_SEGMENT\<close>), not flashed, with zeroed geometry and no
  outline. The argument says whether the image pointer passed is non-null.\<close>

definition new_GERBER_DRAW_ITEM :: "bool \<Rightarrow> GERBER_DRAW_ITEM" where
  "new_GERBER_DRAW_ITEM aGerberImageFile =
     \<lparr>m_GerberImageFile = aGerberImageFile,
      m_Shape = GBR_SEGMENT,
      m_Size = \<lparr>x = 0, y = 0\<rparr>,
      m_Flashed = False,
      m_Start = \<lparr>x = 0, y = 0\<rparr>,
      m_End = \<lparr>x = 0, y = 0\<rparr>,
      m_ArcCentre = \<lparr>x = 0, y = 0\<rparr>,
      m_DCode = 0,
      m_LayerNegative = False,
      m_NetAttributes = [],
      m_AperFunction = [],
      m_Polygon = []\<rparr>"

text \<open>Modelled from the spec: \<^verbatim>\<open>SetLayerPolarity\<close> and \<^verbatim>\<open>SetNetAttributes\<close> are
  members of \<^verbatim>\<open>GERBER_DRAW_ITEM\<close> defined outside src/; they store the polarity and the
  snapshot of the net attributes on the item (spec, section 3, common fields).\<close>

definition SetLayerPolarity :: "bool \<Rightarrow> GERBER_DRAW_ITEM \<Rightarrow> GERBER_DRAW_ITEM" where
  "SetLayerPolarity aNegative aGbrItem = aGbrItem\<lparr>m_LayerNegative := aNegative\<rparr>"

definition SetNetAttributes :: "GBR_NETLIST_METADATA \<Rightarrow> GERBER_DRAW_ITEM \<Rightarrow> GERBER_DRAW_ITEM" where
  "SetNetAttributes aNetAttributes aGbrItem = aGbrItem\<lparr>m_NetAttributes := aNetAttributes\<rparr>"

subsection \<open>The fill functions\<close>

text \<open>In the fill functions the argument \<open>aNetAttributeDict\<close> is the value of
  \<^verbatim>\<open>aGbrItem->m_GerberImageFile->m_NetAttributeDict\<close>. \<^verbatim>\<open>fillFlashedGBRITEM\<close>,
  \<^verbatim>\<open>fillLineGBRITEM\<close> and \<^verbatim>\<open>fillArcPOLY\<close> read it through the pointer without a
  test, which fails on an item without image; \<^verbatim>\<open>fillArcGBRITEM\<close> tests the pointer
  first. The call \<^verbatim>\<open>GetApertureMacroShape\<close> of the \<^verbatim>\<open>APT_MACRO\<close> case evaluates an
  aperture macro, which is outside the interpreter (spec, section 1); it caches a
  bounding box and writes no modelled field.\<close>

definition fillFlashedGBRITEM ::
  "GERBER_DRAW_ITEM \<Rightarrow> GBR_NETLIST_METADATA \<Rightarrow> APERTURE_T \<Rightarrow> int \<Rightarrow> wxPoint \<Rightarrow> wxSize \<Rightarrow> bool
   \<Rightarrow> GERBER_DRAW_ITEM option" where
  "fillFlashedGBRITEM aGbrItem aNetAttributeDict aAperture Dcode_index aPos aSize aLayerNegative =
     (let it1 = aGbrItem\<lparr>m_Size := aSize, m_Start := aPos\<rparr>;
          it2 = it1\<lparr>m_End := m_Start it1, m_DCode := Dcode_index\<rparr>;
          it3 = SetLayerPolarity aLayerNegative it2;
          it4 = it3\<lparr>m_Flashed := True\<rparr>
      in if \<not> m_GerberImageFile it4 then None
         else
           (let it5 = SetNetAttributes aNetAttributeDict it4
            in Some (case aAperture of
                 APT_POLYGON \<Rightarrow> it5\<lparr>m_Shape := GBR_SPOT_POLY\<rparr>
               | APT_CIRCLE \<Rightarrow>
                   (let it6 = it5\<lparr>m_Shape := GBR_SPOT_CIRCLE\<rparr>
                    in it6\<lparr>m_Size := (m_Size it6)\<lparr>y := x (m_Size it6)\<rparr>\<rparr>)
               | APT_OVAL \<Rightarrow> it5\<lparr>m_Shape := GBR_SPOT_OVAL\<rparr>
               | APT_RECT \<Rightarrow> it5\<lparr>m_Shape := GBR_SPOT_RECT\<rparr>
               | APT_MACRO \<Rightarrow> it5\<lparr>m_Shape := GBR_SPOT_MACRO\<rparr>)))"

definition fillLineGBRITEM ::
  "GERBER_DRAW_ITEM \<Rightarrow> GBR_NETLIST_METADATA \<Rightarrow> int \<Rightarrow> wxPoint \<Rightarrow> wxPoint \<Rightarrow> wxSize \<Rightarrow> bool
   \<Rightarrow> GERBER_DRAW_ITEM option" where
  "fillLineGBRITEM aGbrItem aNetAttributeDict Dcode_index aStart aEnd aPenSize aLayerNegative =
     (let it1 = aGbrItem\<lparr>m_Flashed := False, m_Size := aPenSize,
                          m_Start := aStart, m_End := aEnd, m_DCode := Dcode_index\<rparr>;
          it2 = SetLayerPolarity aLayerNegative it1
      in if \<not> m_GerberImageFile it2 then None
         else Some (SetNetAttributes aNetAttributeDict it2))"

text \<open>The sign resolution of the single-quadrant branch of \<^verbatim>\<open>fillArcGBRITEM\<close>
  (lines 228 to 283): the value of the local \<^verbatim>\<open>center\<close> just before
  \<^verbatim>\<open>center += aStart\<close>.\<close>

definition single_quadrant_center :: "wxPoint \<Rightarrow> wxPoint \<Rightarrow> wxPoint \<Rightarrow> bool \<Rightarrow> wxPoint" where
  "single_quadrant_center aStart aEnd aRelCenter aClockwise =
     (let center = aRelCenter;
          delta = pt_sub aEnd aStart;
          center =
            (if x delta \<ge> 0 \<and> y delta \<ge> 0 then center\<lparr>x := wrap32 (- x center)\<rparr>
             else if x delta \<ge> 0 \<and> y delta < 0 then center
             else if x delta < 0 \<and> y delta \<ge> 0 then
               (let c1 = center\<lparr>x := wrap32 (- x center)\<rparr> in c1\<lparr>y := wrap32 (- y c1)\<rparr>)
             else center\<lparr>y := wrap32 (- y center)\<rparr>)
      in if \<not> aClockwise then pt_neg center else center)"

definition fillArcGBRITEM ::
  "GERBER_DRAW_ITEM \<Rightarrow> GBR_NETLIST_METADATA \<Rightarrow> int \<Rightarrow> wxPoint \<Rightarrow> wxPoint \<Rightarrow> wxPoint \<Rightarrow> wxSize
   \<Rightarrow> bool \<Rightarrow> bool \<Rightarrow> bool \<Rightarrow> GERBER_DRAW_ITEM" where
  "fillArcGBRITEM aGbrItem aNetAttributeDict Dcode_index aStart aEnd aRelCenter aPenSize
                  aClockwise aMultiquadrant aLayerNegative =
     (let it1 = aGbrItem\<lparr>m_Shape := GBR_ARC, m_Size := aPenSize, m_Flashed := False\<rparr>;
          it2 = (if m_GerberImageFile it1 then SetNetAttributes aNetAttributeDict it1 else it1);
          center =
            (if aMultiquadrant then pt_add aStart aRelCenter
             else pt_add (single_quadrant_center aStart aEnd aRelCenter aClockwise) aStart);
          it3 = (if aClockwise then it2\<lparr>m_Start := aStart, m_End := aEnd\<rparr>
                 else it2\<lparr>m_Start := aEnd, m_End := aStart\<rparr>);
          it4 = it3\<lparr>m_ArcCentre := center, m_DCode := Dcode_index\<rparr>
      in SetLayerPolarity aLayerNegative it4)"

subsection \<open>Region outlines\<close>

text \<open>Modelled from the spec: \<^verbatim>\<open>SHAPE_POLY_SET\<close> (the type of \<^verbatim>\<open>m_Polygon\<close>) is defined
  outside src/. Following section 4.3 of the spec an outline is an ordered vertex
  sequence; \<^verbatim>\<open>NewOutline\<close> begins an empty outline, \<^verbatim>\<open>Append\<close> adds a vertex at the
  end of the last outline, \<^verbatim>\<open>Vertex( n )\<close> reads vertex \<open>n\<close> of the last outline and
  \<^verbatim>\<open>OutlineCount\<close> counts the outlines. Addressing an outline or a vertex that does not
  exist is a failure.\<close>

definition poly_OutlineCount :: "VECTOR2I list list \<Rightarrow> int" where
  "poly_OutlineCount p = int (length p)"

definition poly_NewOutline :: "VECTOR2I list list \<Rightarrow> VECTOR2I list list" where
  "poly_NewOutline p = p @ [[]]"

definition poly_Append :: "VECTOR2I \<Rightarrow> VECTOR2I list list \<Rightarrow> VECTOR2I list list option" where
  "poly_Append v p = (if p = [] then None else Some (butlast p @ [last p @ [v]]))"

definition poly_Vertex :: "nat \<Rightarrow> VECTOR2I list list \<Rightarrow> VECTOR2I option" where
  "poly_Vertex n p =
     (if p = [] then None
      else if n < length (last p) then Some (last p ! n) else None)"

subsection \<open>The interpreter state\<close>

text \<open>The values of \<^verbatim>\<open>m_Iterpolation\<close> that rs274d.cpp names; any other value of the
  enumeration is \<open>GERB_INTERPOL_other\<close>.\<close>

datatype Gerb_Interpolation =
  GERB_INTERPOL_LINEAR_1X | GERB_INTERPOL_ARC_NEG | GERB_INTERPOL_ARC_POS
  | GERB_INTERPOL_other int

text \<open>The G-codes that \<^verbatim>\<open>Execute_G_Command\<close> names in its \<^verbatim>\<open>switch\<close>. The numeric
  values of the enumerators are declared outside src/, so the argument \<^verbatim>\<open>G_command\<close>
  is modelled by the enumerator it equals, and by \<open>GC_other n\<close> when it is the number
  \<open>n\<close> of no enumerator named in the \<^verbatim>\<open>switch\<close>.\<close>

datatype G_code =
  GC_PHOTO_MODE | GC_LINEAR_INTERPOL_1X | GC_CIRCLE_NEG_INTERPOL | GC_CIRCLE_POS_INTERPOL
  | GC_COMMENT | GC_SELECT_TOOL | GC_SPECIFY_INCHES | GC_SPECIFY_MILLIMETERS
  | GC_TURN_OFF_360_INTERPOL | GC_TURN_ON_360_INTERPOL
  | GC_SPECIFY_ABSOLUES_COORD | GC_SPECIFY_RELATIVEES_COORD
  | GC_TURN_ON_POLY_FILL | GC_TURN_OFF_POLY_FILL
  | GC_MOVE | GC_other int

text \<open>The two messages passed to \<^verbatim>\<open>AddMessageToList\<close>, with the value they print.\<close>

datatype message =
  G_command_not_handled G_code
  | DCODE_interpol_error Gerb_Interpolation

text \<open>The members of \<^verbatim>\<open>GERBER_FILE_IMAGE\<close> that rs274d.cpp reads or writes.
  \<open>m_Aperture_List\<close> is the table behind \<^verbatim>\<open>GetDCODE\<close>, \<open>m_Drawings\<close> the item list
  (\<^verbatim>\<open>GetItemsList()\<close> is its head, null when the list is empty), \<open>m_MessagesList\<close>
  the list behind \<^verbatim>\<open>AddMessageToList\<close>, \<open>LayerParams_m_LayerNegative\<close> the value of
  \<^verbatim>\<open>GetLayerParams().m_LayerNegative\<close>, and \<open>IMAGE_m_AperFunction\<close> the image's
  \<^verbatim>\<open>m_AperFunction\<close>.\<close>

record GERBER_FILE_IMAGE =
  m_Iterpolation :: Gerb_Interpolation
  m_Current_Tool :: int
  m_GerbMetric :: bool
  m_360Arc_enbl :: bool
  m_Relative :: bool
  m_PolygonFillMode :: bool
  m_PolygonFillModeState :: int
  m_Exposure :: bool
  m_Last_Pen_Command :: int
  m_PreviousPos :: wxPoint
  m_CurrentPos :: wxPoint
  m_IJPos :: wxPoint
  m_LastCoordIsIJPos :: bool
  m_Drawings :: "GERBER_DRAW_ITEM list"
  m_Aperture_List :: "int \<rightharpoonup> D_CODE"
  m_MessagesList :: "message list"
  LayerParams_m_LayerNegative :: bool
  m_NetAttributeDict :: GBR_NETLIST_METADATA
  IMAGE_m_AperFunction :: string

text \<open>What rs274d.cpp calls and src/ does not define is a parameter of the model:
  \<^item> \<open>ArcTangente dy dx\<close>, the angle of \<open>(dx, dy)\<close> in tenths of a degree, and
    \<open>RotatePoint p angle\<close>, the point \<open>p\<close> rotated (trigo.h);
  \<^item> \<open>round_double\<close>, the rounding of an exact real result to a \<^verbatim>\<open>double\<close> by the
    floating-point unit;
  \<^item> the macro \<open>IsNumber\<close> and the C function \<open>atoi\<close>;
  \<^item> \<open>ExecuteRS274XCommand\<close>, standing for \<^verbatim>\<open>ReadXCommandID\<close> followed by
    \<^verbatim>\<open>ExecuteRS274XCommand\<close> on the text of a structured comment;
  \<^item> \<open>StepAndRepeat_copies\<close>, the replicated copies of an item that
    \<^verbatim>\<open>StepAndRepeatItem\<close> makes.\<close>

record collaborators =
  ArcTangente :: "int \<Rightarrow> int \<Rightarrow> real"
  RotatePoint :: "wxPoint \<Rightarrow> real \<Rightarrow> wxPoint"
  round_double :: "real \<Rightarrow> real"
  IsNumber :: "char \<Rightarrow> bool"
  atoi :: "string \<Rightarrow> int"
  ExecuteRS274XCommand :: "string \<Rightarrow> GERBER_FILE_IMAGE \<Rightarrow> GERBER_FILE_IMAGE"
  StepAndRepeat_copies :: "GERBER_FILE_IMAGE \<Rightarrow> GERBER_DRAW_ITEM \<Rightarrow> GERBER_DRAW_ITEM list"

subsection \<open>Arcs in region outlines\<close>

definition increment_angle :: int where
  "increment_angle = 3600 div 36"

text \<open>The conversion of a \<^verbatim>\<open>double\<close> to \<^verbatim>\<open>int\<close> discards the fractional part; it is
  undefined when the result is not a value of \<^verbatim>\<open>int\<close>.\<close>

definition double_to_int :: "real \<Rightarrow> int option" where
  "double_to_int r =
     (let t = (if 0 \<le> r then \<lfloor>r\<rfloor> else \<lceil>r\<rceil>)
      in if int32 t then Some t else None)"

text \<open>The loop \<^verbatim>\<open>for( int ii = 0; ii <= count; ii++ )\<close> of \<^verbatim>\<open>fillArcPOLY\<close>, from the
  value \<open>ii\<close> of the counter on. The local \<^verbatim>\<open>start_arc\<close> is written and never read.
  The products are \<^verbatim>\<open>int\<close> products, converted to \<^verbatim>\<open>double\<close> afterwards. When the
  counter is the largest \<^verbatim>\<open>int\<close> its increment overflows and the loop, with the
  counter wrapped around, would not end: that is the result \<open>None\<close>.\<close>

function fillArcPOLY_loop ::
  "(wxPoint \<Rightarrow> real \<Rightarrow> wxPoint) \<Rightarrow> bool \<Rightarrow> wxPoint \<Rightarrow> wxPoint \<Rightarrow> wxPoint \<Rightarrow> int \<Rightarrow> int
   \<Rightarrow> VECTOR2I list list \<Rightarrow> VECTOR2I list list option" where
  "fillArcPOLY_loop aRotatePoint aClockwise start end' center count ii poly =
     (if ii \<le> count then
        (let end_arc = start;
             rot = (if aClockwise then real_of_int (wrap32 (ii * increment_angle))
                    else real_of_int (wrap32 (wrap32 (count - ii) * increment_angle)));
             end_arc = (if ii < count then aRotatePoint end_arc (- rot)
                        else (if aClockwise then end' else start))
         in case poly_Append (pt_add end_arc center) poly of
              None \<Rightarrow> None
            | Some poly' \<Rightarrow>
                if ii = 2 ^ 31 - 1 then None
                else fillArcPOLY_loop aRotatePoint aClockwise start end' center count
                       (ii + 1) poly')
      else Some poly)"
  by pat_completeness auto
termination
  by (relation "measure (\<lambda>(aRotatePoint, aClockwise, start, end', center, count, ii, poly).
                           nat (count + 1 - ii))") auto

declare fillArcPOLY_loop.simps [simp del]

text \<open>\<^verbatim>\<open>fillArcPOLY\<close>. The static \<^verbatim>\<open>dummyGbrItem\<close> is constructed with a null image;
  \<^verbatim>\<open>fillArcGBRITEM\<close> overwrites the three members read from it on every call, so a
  fresh item stands for it. The angles are doubles: \<^verbatim>\<open>end_angle += 3600\<close>,
  \<^verbatim>\<open>start_angle - end_angle\<close> and \<^verbatim>\<open>arc_angle / increment_angle\<close> are rounded;
  the comparison, \<^verbatim>\<open>std::abs\<close> and the conversions of \<^verbatim>\<open>int\<close> values are exact.\<close>

definition fillArcPOLY ::
  "collaborators \<Rightarrow> GERBER_DRAW_ITEM \<Rightarrow> GBR_NETLIST_METADATA \<Rightarrow> wxPoint \<Rightarrow> wxPoint \<Rightarrow> wxPoint
   \<Rightarrow> bool \<Rightarrow> bool \<Rightarrow> bool \<Rightarrow> GERBER_DRAW_ITEM option" where
  "fillArcPOLY env aGbrItem aNetAttributeDict aStart aEnd rel_center
               aClockwise aMultiquadrant aLayerNegative =
     (let it1 = SetLayerPolarity aLayerNegative aGbrItem;
          dummyGbrItem = fillArcGBRITEM (new_GERBER_DRAW_ITEM False) [] 0 aStart aEnd rel_center
                           \<lparr>x = 0, y = 0\<rparr> aClockwise aMultiquadrant aLayerNegative
      in if \<not> m_GerberImageFile it1 then None
         else
           (let it2 = SetNetAttributes aNetAttributeDict it1;
                center = m_ArcCentre dummyGbrItem;
                start = pt_sub (m_Start dummyGbrItem) center;
                end' = pt_sub (m_End dummyGbrItem) center;
                start_angle = ArcTangente env (y start) (x start);
                end_angle = ArcTangente env (y end') (x end');
                end_angle = (if start_angle > end_angle
                             then round_double env (end_angle + 3600) else end_angle);
                arc_angle = round_double env (start_angle - end_angle)
            in case double_to_int
                      \<bar>round_double env (arc_angle / real_of_int increment_angle)\<bar> of
                 None \<Rightarrow> None
               | Some count \<Rightarrow>
                   (let poly = (if poly_OutlineCount (m_Polygon it2) = 0
                                then poly_NewOutline (m_Polygon it2) else m_Polygon it2)
                    in case fillArcPOLY_loop (RotatePoint env) aClockwise start end' center
                              count 0 poly of
                         None \<Rightarrow> None
                       | Some poly' \<Rightarrow> Some (it2\<lparr>m_Polygon := poly'\<rparr>))))"

subsection \<open>Collaborators of the dispatcher\<close>

text \<open>Modelled from the spec: the macros \<^verbatim>\<open>FIRST_DCODE\<close> and \<^verbatim>\<open>TOOLS_MAX_COUNT\<close> are
  defined outside src/. The header comment of rs274d.cpp gives the tool numbers as
  10 to 999, so the first valid tool number is 10 and the table has 1000 slots. The
  proofs below use of the two values only that the pen codes 1, 2 and 3 are smaller than
  \<open>FIRST_DCODE\<close>.\<close>

definition FIRST_DCODE :: int where
  "FIRST_DCODE = 10"

definition TOOLS_MAX_COUNT :: int where
  "TOOLS_MAX_COUNT = 1000"

text \<open>Modelled from the spec: \<^verbatim>\<open>GetDCODE\<close>, \<^verbatim>\<open>AddMessageToList\<close> and
  \<^verbatim>\<open>StepAndRepeatItem\<close> are members of \<^verbatim>\<open>GERBER_FILE_IMAGE\<close> defined outside src/
  (spec, section 6, collaborator calls). \<^verbatim>\<open>GetDCODE\<close> looks a tool index up in the
  aperture table and may find nothing; \<^verbatim>\<open>AddMessageToList\<close> appends a diagnostic;
  \<^verbatim>\<open>StepAndRepeatItem\<close> is handed an item of the list and appends the replicated copies
  it decides to make.\<close>

definition GetDCODE :: "GERBER_FILE_IMAGE \<Rightarrow> int \<Rightarrow> D_CODE option" where
  "GetDCODE s aDCODE = m_Aperture_List s aDCODE"

definition AddMessageToList :: "message \<Rightarrow> GERBER_FILE_IMAGE \<Rightarrow> GERBER_FILE_IMAGE" where
  "AddMessageToList msg s = s\<lparr>m_MessagesList := m_MessagesList s @ [msg]\<rparr>"

definition StepAndRepeatItem ::
  "collaborators \<Rightarrow> GERBER_DRAW_ITEM \<Rightarrow> GERBER_FILE_IMAGE \<Rightarrow> GERBER_FILE_IMAGE" where
  "StepAndRepeatItem env aItem s =
     s\<lparr>m_Drawings := m_Drawings s @ StepAndRepeat_copies env s aItem\<rparr>"

text \<open>The statements \<^verbatim>\<open>D_CODE* pt_Dcode = GetDCODE( D_commande ); if( pt_Dcode )
  pt_Dcode->m_InUse = true;\<close> of both tool selections.\<close>

definition mark_InUse :: "int \<Rightarrow> GERBER_FILE_IMAGE \<Rightarrow> GERBER_FILE_IMAGE" where
  "mark_InUse D_commande s =
     (case GetDCODE s D_commande of
        None \<Rightarrow> s
      | Some pt_Dcode \<Rightarrow>
          s\<lparr>m_Aperture_List :=
               (m_Aperture_List s)(D_commande \<mapsto> pt_Dcode\<lparr>D_CODE_m_InUse := True\<rparr>)\<rparr>)"

text \<open>The local \<^verbatim>\<open>gbritem\<close> points at the last item of the list; writing through the
  pointer replaces that item.\<close>

definition set_last_item :: "GERBER_DRAW_ITEM \<Rightarrow> GERBER_FILE_IMAGE \<Rightarrow> GERBER_FILE_IMAGE" where
  "set_last_item gbritem s = s\<lparr>m_Drawings := butlast (m_Drawings s) @ [gbritem]\<rparr>"

subsection \<open>Reading a D-code number\<close>

text \<open>A text cursor \<^verbatim>\<open>char*&\<close> is \<open>None\<close> when null and otherwise the characters up to
  the terminating NUL. \<^verbatim>\<open>DCodeNumber\<close> steps over one character, copies the characters
  accepted by \<open>IsNumber\<close> into \<^verbatim>\<open>line[1024]\<close> and converts them. Stepping over the
  terminator, running past it, or filling the buffer is a failure.\<close>

definition DCodeNumber ::
  "collaborators \<Rightarrow> string option \<Rightarrow> (int \<times> string option) option" where
  "DCodeNumber env Text =
     (case Text of
        None \<Rightarrow> Some (0, None)
      | Some t \<Rightarrow>
          (case t of
             [] \<Rightarrow> None
           | c # t1 \<Rightarrow>
               (let line = takeWhile (IsNumber env) t1;
                    rest = dropWhile (IsNumber env) t1
                in if rest = [] \<and> IsNumber env (CHR 0x00) then None
                   else if length line \<ge> 1024 then None
                   else Some (atoi env line, Some rest))))"

subsection \<open>G-commands\<close>

text \<open>The three statements that close the open region, the same in
  \<^verbatim>\<open>Execute_G_Command\<close> (lines 554 to 556) and in \<^verbatim>\<open>Execute_DCODE_Command\<close>
  (lines 666 to 668): the first vertex of the outline of the last item is appended to
  that outline, and the item is handed to \<^verbatim>\<open>StepAndRepeatItem\<close>. The caller has
  tested that the list is not empty.\<close>

definition close_polygon ::
  "collaborators \<Rightarrow> GERBER_FILE_IMAGE \<Rightarrow> GERBER_FILE_IMAGE option" where
  "close_polygon env s =
     (let gbritem = last (m_Drawings s)
      in case poly_Vertex 0 (m_Polygon gbritem) of
           None \<Rightarrow> None
         | Some v \<Rightarrow>
             (case poly_Append v (m_Polygon gbritem) of
                None \<Rightarrow> None
              | Some poly' \<Rightarrow>
                  (let gbritem' = gbritem\<lparr>m_Polygon := poly'\<rparr>
                   in Some (StepAndRepeatItem env gbritem' (set_last_item gbritem' s)))))"

text \<open>\<^verbatim>\<open>Execute_G_Command\<close> returns its \<^verbatim>\<open>bool\<close>, the text cursor and the image.\<close>

definition Execute_G_Command ::
  "collaborators \<Rightarrow> string option \<Rightarrow> G_code \<Rightarrow> GERBER_FILE_IMAGE
   \<Rightarrow> (bool \<times> string option \<times> GERBER_FILE_IMAGE) option" where
  "Execute_G_Command env text G_command s =
     (case G_command of
        GC_PHOTO_MODE \<Rightarrow> Some (True, text, s)
      | GC_LINEAR_INTERPOL_1X \<Rightarrow>
          Some (True, text, s\<lparr>m_Iterpolation := GERB_INTERPOL_LINEAR_1X\<rparr>)
      | GC_CIRCLE_NEG_INTERPOL \<Rightarrow>
          Some (True, text, s\<lparr>m_Iterpolation := GERB_INTERPOL_ARC_NEG\<rparr>)
      | GC_CIRCLE_POS_INTERPOL \<Rightarrow>
          Some (True, text, s\<lparr>m_Iterpolation := GERB_INTERPOL_ARC_POS\<rparr>)
      | GC_COMMENT \<Rightarrow>
          (case text of
             None \<Rightarrow> None
           | Some t \<Rightarrow>
               (let (t1, s1) =
                      (if take 5 t = '' #@! '' then
                         (let t5 = drop 5 t;
                              x2buf = takeWhile (\<lambda>c. c \<noteq> CHR ''*'') t5 @ ''*%''
                          in (dropWhile (\<lambda>c. c \<noteq> CHR ''*'') t5,
                              ExecuteRS274XCommand env x2buf s))
                       else (t, s))
                in Some (True, Some (dropWhile (\<lambda>c. c \<noteq> CHR ''*'') t1), s1)))
      | GC_SELECT_TOOL \<Rightarrow>
          (case DCodeNumber env text of
             None \<Rightarrow> None
           | Some (D_commande, text') \<Rightarrow>
               if D_commande < FIRST_DCODE then Some (False, text', s)
               else
                 (let D_commande = (if D_commande > TOOLS_MAX_COUNT - 1
                                    then TOOLS_MAX_COUNT - 1 else D_commande);
                      s1 = s\<lparr>m_Current_Tool := D_commande\<rparr>
                  in Some (True, text', mark_InUse D_commande s1)))
      | GC_SPECIFY_INCHES \<Rightarrow> Some (True, text, s\<lparr>m_GerbMetric := False\<rparr>)
      | GC_SPECIFY_MILLIMETERS \<Rightarrow> Some (True, text, s\<lparr>m_GerbMetric := True\<rparr>)
      | GC_TURN_OFF_360_INTERPOL \<Rightarrow>
          Some (True, text,
                s\<lparr>m_360Arc_enbl := False, m_Iterpolation := GERB_INTERPOL_LINEAR_1X\<rparr>)
      | GC_TURN_ON_360_INTERPOL \<Rightarrow> Some (True, text, s\<lparr>m_360Arc_enbl := True\<rparr>)
      | GC_SPECIFY_ABSOLUES_COORD \<Rightarrow> Some (True, text, s\<lparr>m_Relative := False\<rparr>)
      | GC_SPECIFY_RELATIVEES_COORD \<Rightarrow> Some (True, text, s\<lparr>m_Relative := True\<rparr>)
      | GC_TURN_ON_POLY_FILL \<Rightarrow>
          Some (True, text, s\<lparr>m_PolygonFillMode := True, m_Exposure := False\<rparr>)
      | GC_TURN_OFF_POLY_FILL \<Rightarrow>
          (case (if m_Exposure s \<and> m_Drawings s \<noteq> [] then close_polygon env s else Some s) of
             None \<Rightarrow> None
           | Some s1 \<Rightarrow>
               Some (True, text,
                     s1\<lparr>m_Exposure := False, m_PolygonFillMode := False,
                        m_PolygonFillModeState := 0,
                        m_Iterpolation := GERB_INTERPOL_LINEAR_1X\<rparr>))
      | GC_MOVE \<Rightarrow> Some (False, text, AddMessageToList (G_command_not_handled G_command) s)
      | GC_other n \<Rightarrow> Some (False, text, AddMessageToList (G_command_not_handled G_command) s))"

subsection \<open>D-commands\<close>

text \<open>The defaults \<^verbatim>\<open>size( 15, 15 )\<close>, \<^verbatim>\<open>dcode = 0\<close> and \<^verbatim>\<open>aperture = APT_CIRCLE\<close>,
  overwritten from the current tool when \<^verbatim>\<open>GetDCODE\<close> finds it.\<close>

definition tool_params :: "GERBER_FILE_IMAGE \<Rightarrow> wxSize \<times> int \<times> APERTURE_T" where
  "tool_params s =
     (case GetDCODE s (m_Current_Tool s) of
        None \<Rightarrow> (\<lparr>x = 15, y = 15\<rparr>, 0, APT_CIRCLE)
      | Some tool \<Rightarrow> (D_CODE_m_Size tool, D_CODE_m_Num_Dcode tool, D_CODE_m_Shape tool))"

text \<open>Pen code 1 in polygon-fill mode (lines 614 to 661).\<close>

definition polygon_D01 ::
  "collaborators \<Rightarrow> GERBER_FILE_IMAGE \<Rightarrow> (bool \<times> GERBER_FILE_IMAGE) option" where
  "polygon_D01 env s =
     (let s1 =
            (if \<not> m_Exposure s then
               (let s' = s\<lparr>m_Exposure := True\<rparr>;
                    gbritem = (new_GERBER_DRAW_ITEM True)
                                \<lparr>m_Shape := GBR_POLYGON, m_Flashed := False, m_DCode := 0\<rparr>;
                    gbritem =
                      (if m_GerberImageFile gbritem then
                         (SetNetAttributes (m_NetAttributeDict s') gbritem)
                           \<lparr>m_AperFunction := IMAGE_m_AperFunction s'\<rparr>
                       else gbritem)
                in s'\<lparr>m_Drawings := m_Drawings s' @ [gbritem]\<rparr>)
             else s);
          s2 =
            (if m_Drawings s1 = [] then None
             else
               (let gbritem = last (m_Drawings s1)
                in if m_Iterpolation s1 = GERB_INTERPOL_ARC_NEG
                      \<or> m_Iterpolation s1 = GERB_INTERPOL_ARC_POS then
                     (case fillArcPOLY env gbritem (m_NetAttributeDict s1)
                             (m_PreviousPos s1) (m_CurrentPos s1) (m_IJPos s1)
                             (if m_Iterpolation s1 = GERB_INTERPOL_ARC_NEG then False else True)
                             (m_360Arc_enbl s1) (LayerParams_m_LayerNegative s1) of
                        None \<Rightarrow> None
                      | Some gbritem' \<Rightarrow> Some (set_last_item gbritem' s1))
                   else
                     (let g1 = gbritem\<lparr>m_Start := m_PreviousPos s1\<rparr>;
                          poly1 =
                            (if poly_OutlineCount (m_Polygon g1) = 0
                             then poly_Append (m_Start g1) (poly_NewOutline (m_Polygon g1))
                             else Some (m_Polygon g1))
                      in case poly1 of
                           None \<Rightarrow> None
                         | Some p1 \<Rightarrow>
                             (let g2 = g1\<lparr>m_Polygon := p1, m_End := m_CurrentPos s1\<rparr>
                              in case poly_Append (m_End g2) (m_Polygon g2) of
                                   None \<Rightarrow> None
                                 | Some p2 \<Rightarrow>
                                     Some (set_last_item (g2\<lparr>m_Polygon := p2\<rparr>) s1)))))
      in case s2 of
           None \<Rightarrow> None
         | Some s3 \<Rightarrow>
             Some (True, s3\<lparr>m_PreviousPos := m_CurrentPos s3, m_PolygonFillModeState := 1\<rparr>))"

text \<open>Pen code 2 in polygon-fill mode (lines 663 to 673).\<close>

definition polygon_D02 ::
  "collaborators \<Rightarrow> GERBER_FILE_IMAGE \<Rightarrow> (bool \<times> GERBER_FILE_IMAGE) option" where
  "polygon_D02 env s =
     (case (if m_Exposure s \<and> m_Drawings s \<noteq> [] then close_polygon env s else Some s) of
        None \<Rightarrow> None
      | Some s1 \<Rightarrow>
          Some (True, s1\<lparr>m_Exposure := False, m_PreviousPos := m_CurrentPos s1,
                         m_PolygonFillModeState := 0\<rparr>))"

text \<open>Pen code 1 outside polygon-fill mode (lines 683 to 737). The new item is appended
  to the list and then filled through the pointer; the model appends the filled item.\<close>

definition normal_D01 ::
  "collaborators \<Rightarrow> GERBER_FILE_IMAGE \<Rightarrow> (bool \<times> GERBER_FILE_IMAGE) option" where
  "normal_D01 env s =
     (let s1 = s\<lparr>m_Exposure := True\<rparr>;
          (size, dcode, aperture) = tool_params s1;
          s2 =
            (if m_Iterpolation s1 = GERB_INTERPOL_LINEAR_1X then
               (case fillLineGBRITEM (new_GERBER_DRAW_ITEM True) (m_NetAttributeDict s1) dcode
                       (m_PreviousPos s1) (m_CurrentPos s1) size
                       (LayerParams_m_LayerNegative s1) of
                  None \<Rightarrow> None
                | Some gbritem \<Rightarrow>
                    Some (StepAndRepeatItem env gbritem
                            (s1\<lparr>m_Drawings := m_Drawings s1 @ [gbritem]\<rparr>)))
             else if m_Iterpolation s1 = GERB_INTERPOL_ARC_NEG
                     \<or> m_Iterpolation s1 = GERB_INTERPOL_ARC_POS then
               (if m_LastCoordIsIJPos s1 then
                  (let gbritem =
                         fillArcGBRITEM (new_GERBER_DRAW_ITEM True) (m_NetAttributeDict s1)
                           dcode (m_PreviousPos s1) (m_CurrentPos s1) (m_IJPos s1) size
                           (if m_Iterpolation s1 = GERB_INTERPOL_ARC_NEG then False else True)
                           (m_360Arc_enbl s1) (LayerParams_m_LayerNegative s1);
                       s' = s1\<lparr>m_Drawings := m_Drawings s1 @ [gbritem],
                               m_LastCoordIsIJPos := False\<rparr>
                   in Some (StepAndRepeatItem env gbritem s'))
                else
                  (case fillLineGBRITEM (new_GERBER_DRAW_ITEM True) (m_NetAttributeDict s1)
                          dcode (m_PreviousPos s1) (m_CurrentPos s1) size
                          (LayerParams_m_LayerNegative s1) of
                     None \<Rightarrow> None
                   | Some gbritem \<Rightarrow>
                       Some (StepAndRepeatItem env gbritem
                               (s1\<lparr>m_Drawings := m_Drawings s1 @ [gbritem]\<rparr>))))
             else Some (AddMessageToList (DCODE_interpol_error (m_Iterpolation s1)) s1))
      in case s2 of
           None \<Rightarrow> None
         | Some s3 \<Rightarrow> Some (True, s3\<lparr>m_PreviousPos := m_CurrentPos s3\<rparr>))"

text \<open>Pen code 3 outside polygon-fill mode (lines 744 to 759).\<close>

definition normal_D03 ::
  "collaborators \<Rightarrow> GERBER_FILE_IMAGE \<Rightarrow> (bool \<times> GERBER_FILE_IMAGE) option" where
  "normal_D03 env s =
     (let (size, dcode, aperture) = tool_params s
      in case fillFlashedGBRITEM (new_GERBER_DRAW_ITEM True) (m_NetAttributeDict s) aperture
                dcode (m_CurrentPos s) size (LayerParams_m_LayerNegative s) of
           None \<Rightarrow> None
         | Some gbritem \<Rightarrow>
             (let s1 = StepAndRepeatItem env gbritem (s\<lparr>m_Drawings := m_Drawings s @ [gbritem]\<rparr>)
              in Some (True, s1\<lparr>m_PreviousPos := m_CurrentPos s1\<rparr>)))"

text \<open>\<^verbatim>\<open>Execute_DCODE_Command\<close> returns its \<^verbatim>\<open>bool\<close> and the image; it never reads
  its text cursor.\<close>

definition Execute_DCODE_Command ::
  "collaborators \<Rightarrow> int \<Rightarrow> GERBER_FILE_IMAGE \<Rightarrow> (bool \<times> GERBER_FILE_IMAGE) option" where
  "Execute_DCODE_Command env D_commande s =
     (if D_commande \<ge> FIRST_DCODE then
        (let D_commande = (if D_commande > TOOLS_MAX_COUNT - 1
                           then TOOLS_MAX_COUNT - 1 else D_commande);
             s1 = s\<lparr>m_Current_Tool := D_commande\<rparr>
         in Some (True, mark_InUse D_commande s1))
      else
        (let s0 = s\<lparr>m_Last_Pen_Command := D_commande\<rparr>
         in if m_PolygonFillMode s0 then
              (if D_commande = 1 then polygon_D01 env s0
               else if D_commande = 2 then polygon_D02 env s0
               else Some (False, s0))
            else
              (if D_commande = 1 then normal_D01 env s0
               else if D_commande = 2 then
                 Some (True, s0\<lparr>m_Exposure := False, m_PreviousPos := m_CurrentPos s0\<rparr>)
               else if D_commande = 3 then normal_D03 env s0
               else Some (False, s0))))"

subsection \<open>The outline an arc is expected to add\<close>

text \<open>The step count in the words of the spec (section 4.3), computed exactly: if the
  start angle is greater than the end angle a full turn of 3600 tenths of a degree is
  added to the end angle; the number of steps is the absolute span divided by the angle
  of one step (100 tenths of a degree, 36 steps to the full turn), rounded toward
  zero.\<close>

definition spec_arc_steps :: "real \<Rightarrow> real \<Rightarrow> int" where
  "spec_arc_steps start_angle end_angle =
     (let end_angle' = (if start_angle > end_angle then end_angle + 3600 else end_angle);
          span = \<bar>end_angle' - start_angle\<bar> / 100
      in sgn \<lfloor>span\<rfloor> * \<bar>\<lfloor>span\<rfloor>\<bar>)"

text \<open>The same step count in floating-point arithmetic: the sum with the full turn, the
  difference of the two angles and the quotient by 100 are each rounded to a double by
  \<open>rnd\<close> before the quotient is rounded toward zero.\<close>

definition rounded_arc_steps :: "(real \<Rightarrow> real) \<Rightarrow> real \<Rightarrow> real \<Rightarrow> int" where
  "rounded_arc_steps rnd start_angle end_angle =
     (let end_angle' = (if start_angle > end_angle then rnd (end_angle + 3600) else end_angle);
          span = rnd (start_angle - end_angle');
          steps = \<bar>rnd (span / 100)\<bar>
      in sgn \<lfloor>steps\<rfloor> * \<bar>\<lfloor>steps\<rfloor>\<bar>)"

text \<open>The interpolated vertex of step \<open>i\<close> out of \<open>n\<close>, for the point \<open>s\<close> (relative to
  the centre \<open>c\<close>) from which the sweep of the canonical arc starts. For a clockwise
  flag \<open>s\<close> is the true start and step \<open>i\<close> is \<open>s\<close> turned by \<open>i\<close> steps; otherwise \<open>s\<close> is
  the true end and step \<open>i\<close> is \<open>s\<close> turned by \<open>n - i\<close> steps.\<close>

definition arc_vertex ::
  "(wxPoint \<Rightarrow> real \<Rightarrow> wxPoint) \<Rightarrow> bool \<Rightarrow> wxPoint \<Rightarrow> wxPoint \<Rightarrow> int \<Rightarrow> int \<Rightarrow> wxPoint" where
  "arc_vertex aRotatePoint aClockwise s c n i =
     pt_add (aRotatePoint s (- real_of_int ((if aClockwise then i else n - i) * 100))) c"

subsection \<open>The G-codes the dispatcher recognizes\<close>

text \<open>The recognized set of the spec (section 4.1): photo mode, linear interpolation,
  the two arc interpolations, comment, tool select, inches, millimeters, 360 degree arcs
  on and off, absolute and relative addressing, polygon fill on and off.\<close>

definition recognized_G_code :: "G_code \<Rightarrow> bool" where
  "recognized_G_code g =
     (g \<in> set [GC_PHOTO_MODE, GC_LINEAR_INTERPOL_1X, GC_CIRCLE_NEG_INTERPOL,
                GC_CIRCLE_POS_INTERPOL, GC_COMMENT, GC_SELECT_TOOL, GC_SPECIFY_INCHES,
                GC_SPECIFY_MILLIMETERS, GC_TURN_ON_360_INTERPOL, GC_TURN_OFF_360_INTERPOL,
                GC_SPECIFY_ABSOLUES_COORD, GC_SPECIFY_RELATIVEES_COORD,
                GC_TURN_ON_POLY_FILL, GC_TURN_OFF_POLY_FILL])"

subsection \<open>Example collaborators\<close>

text \<open>Rounding to the nearest double, ties to the even significand: a double has a
  significand of 53 bits, so a real number \<open>r\<close> with \<open>2 ^ e \<le> \<bar>r\<bar> < 2 ^ (e + 1)\<close> is
  rounded to a multiple of \<open>2 ^ (e - 52)\<close>. The range of the exponent is not limited, which
  makes no difference for the angles of the examples.\<close>

definition round_half_even :: "real \<Rightarrow> int" where
  "round_half_even r =
     (let f = \<lfloor>r\<rfloor>; d = r - of_int f
      in if d < 1 / 2 then f else if 1 / 2 < d then f + 1 else if even f then f else f + 1)"

definition binary_exponent :: "real \<Rightarrow> int" where
  "binary_exponent a =
     (if 1 \<le> a then int (floorlog 2 (nat \<lfloor>a\<rfloor>)) - 1
      else - int (floorlog 2 (nat (\<lceil>1 / a\<rceil> - 1))))"

definition binary64_round :: "real \<Rightarrow> real" where
  "binary64_round r =
     (if r = 0 then 0
      else (let e = binary_exponent \<bar>r\<bar>
            in if 52 \<le> e
               then sgn r * of_int (round_half_even (\<bar>r\<bar> / 2 ^ nat (e - 52))) * 2 ^ nat (e - 52)
               else sgn r * of_int (round_half_even (\<bar>r\<bar> * 2 ^ nat (52 - e)))
                      / 2 ^ nat (52 - e)))"

text \<open>Collaborators for the worked examples. \<open>ArcTangente\<close> is exact on the coordinate
  axes and has, for the three directions \<open>(-4, 3)\<close>, \<open>(-3, -4)\<close> and \<open>(-1, 10)\<close>, the double
  that \<^verbatim>\<open>atan2( dy, dx ) * 1800.0 / M_PI\<close> evaluates to (1431.3010235415597,
  -1268.6989764584403 and 957.1059313749964). \<open>RotatePoint\<close> is the table of the point
  \<open>(10, 0)\<close> turned by multiples of ten degrees and rounded to integers. \<open>IsNumber\<close>
  accepts the decimal digits, \<open>atoi\<close> is the value of the leading decimal digits, and
  there are no embedded metadata commands and no step-and-repeat copies.\<close>

definition atoi_digits :: "string \<Rightarrow> int" where
  "atoi_digits t =
     foldl (\<lambda>n c. 10 * n + (of_char c - 48)) 0 (takeWhile (\<lambda>c. c \<in> set ''0123456789'') t)"

definition rotate_table :: "(real \<times> wxPoint) list" where
  "rotate_table =
     [(0, \<lparr>x = 10, y = 0\<rparr>), (- 100, \<lparr>x = 10, y = 2\<rparr>), (- 200, \<lparr>x = 9, y = 3\<rparr>),
      (- 300, \<lparr>x = 9, y = 5\<rparr>), (- 400, \<lparr>x = 8, y = 6\<rparr>), (- 500, \<lparr>x = 6, y = 8\<rparr>),
      (- 600, \<lparr>x = 5, y = 9\<rparr>), (- 700, \<lparr>x = 3, y = 9\<rparr>), (- 800, \<lparr>x = 2, y = 10\<rparr>),
      (- 900, \<lparr>x = 0, y = 10\<rparr>)]"

definition arctangente_table :: "((int \<times> int) \<times> real) list" where
  "arctangente_table =
     [((3, - 4), 6294928472926541 / 4398046511104),
      ((- 4, - 3), - 5579797107054259 / 4398046511104),
      ((10, - 1), 8418792804481495 / 8796093022208)]"

definition env_example :: collaborators where
  "env_example =
     \<lparr>ArcTangente = (\<lambda>dy dx. if dy = 0 then (if dx \<ge> 0 then 0 else - 1800)
                             else if dx = 0 then (if dy \<ge> 0 then 900 else - 900)
                             else (case map_of arctangente_table (dy, dx) of
                                     None \<Rightarrow> 0 | Some a \<Rightarrow> a)),
      RotatePoint = (\<lambda>p angle. if p = \<lparr>x = 10, y = 0\<rparr>
                                then (case map_of rotate_table angle of None \<Rightarrow> p | Some q \<Rightarrow> q)
                                else p),
      round_double = binary64_round,
      IsNumber = (\<lambda>c. c \<in> set ''0123456789''),
      atoi = atoi_digits,
      ExecuteRS274XCommand = (\<lambda>t s. s),
      StepAndRepeat_copies = (\<lambda>s it. [])\<rparr>"

text \<open>An image in normal mode with linear interpolation, tool 10 (a round aperture of
  size 20) selected and defined, the pen moved from \<open>(0, 0)\<close> to \<open>(10, 0)\<close>, and no item
  drawn yet.\<close>

definition image_example :: GERBER_FILE_IMAGE where
  "image_example =
     \<lparr>m_Iterpolation = GERB_INTERPOL_LINEAR_1X,
      m_Current_Tool = 10,
      m_GerbMetric = False,
      m_360Arc_enbl = False,
      m_Relative = False,
      m_PolygonFillMode = False,
      m_PolygonFillModeState = 0,
      m_Exposure = False,
      m_Last_Pen_Command = 2,
      m_PreviousPos = \<lparr>x = 0, y = 0\<rparr>,
      m_CurrentPos = \<lparr>x = 10, y = 0\<rparr>,
      m_IJPos = \<lparr>x = 5, y = 0\<rparr>,
      m_LastCoordIsIJPos = False,
      m_Drawings = [],
      m_Aperture_List =
        [10 \<mapsto> \<lparr>D_CODE_m_Size = \<lparr>x = 20, y = 20\<rparr>, D_CODE_m_Num_Dcode = 10,
                 D_CODE_m_Shape = APT_CIRCLE, D_CODE_m_InUse = False\<rparr>],
      m_MessagesList = [],
      LayerParams_m_LayerNegative = False,
      m_NetAttributeDict = ''net'',
      IMAGE_m_AperFunction = ''''\<rparr>"

text \<open>The same image in arc mode, with and without a relative centre just parsed.\<close>

definition image_G02_pending :: GERBER_FILE_IMAGE where
  "image_G02_pending = image_example\<lparr>m_LastCoordIsIJPos := True\<rparr>"

definition image_arc_pending :: GERBER_FILE_IMAGE where
  "image_arc_pending =
     image_example\<lparr>m_Iterpolation := GERB_INTERPOL_ARC_POS, m_360Arc_enbl := True,
                   m_LastCoordIsIJPos := True\<rparr>"

definition image_arc_no_center :: GERBER_FILE_IMAGE where
  "image_arc_no_center = image_example\<lparr>m_Iterpolation := GERB_INTERPOL_ARC_NEG\<rparr>"

text \<open>The image after \<^verbatim>\<open>G36\<close>, \<^verbatim>\<open>D01\<close> to \<open>(10, 0)\<close> and \<^verbatim>\<open>D01\<close> to \<open>(10, 10)\<close>: a region is
  open with the outline \<open>(0, 0)\<close>, \<open>(10, 0)\<close>, \<open>(10, 10)\<close>.\<close>

definition region_example :: GERBER_DRAW_ITEM where
  "region_example =
     (new_GERBER_DRAW_ITEM True)
       \<lparr>m_Shape := GBR_POLYGON, m_NetAttributes := ''net'',
        m_Start := \<lparr>x = 10, y = 0\<rparr>, m_End := \<lparr>x = 10, y = 10\<rparr>,
        m_Polygon := [[\<lparr>x = 0, y = 0\<rparr>, \<lparr>x = 10, y = 0\<rparr>, \<lparr>x = 10, y = 10\<rparr>]]\<rparr>"

definition image_region_open :: GERBER_FILE_IMAGE where
  "image_region_open =
     image_example\<lparr>m_PolygonFillMode := True, m_PolygonFillModeState := 1, m_Exposure := True,
                   m_Last_Pen_Command := 1,
                   m_PreviousPos := \<lparr>x = 10, y = 10\<rparr>, m_CurrentPos := \<lparr>x = 10, y = 10\<rparr>,
                   m_Drawings := [region_example]\<rparr>"

text \<open>The first image in polygon-fill mode, after a move (pen code 2) and with no region
  open.\<close>

definition image_polygon_mode :: GERBER_FILE_IMAGE where
  "image_polygon_mode = image_example\<lparr>m_PolygonFillMode := True\<rparr>"

section \<open>Properties\<close>

subsection \<open>Arc centre resolution\<close>

lemma fillArcGBRITEM_ArcCentre:
  "m_ArcCentre (fillArcGBRITEM it na d S E C sz k mq neg) =
     (if mq then pt_add S C else pt_add (single_quadrant_center S E C k) S)"
  by (simp add: fillArcGBRITEM_def SetLayerPolarity_def SetNetAttributes_def Let_def)

lemma fillArcGBRITEM_Start_End:
  "m_Start (fillArcGBRITEM it na d S E C sz k mq neg) = (if k then S else E)"
  "m_End (fillArcGBRITEM it na d S E C sz k mq neg) = (if k then E else S)"
  by (simp_all add: fillArcGBRITEM_def SetLayerPolarity_def SetNetAttributes_def Let_def)

lemma wrap32_id: "int32 v \<Longrightarrow> wrap32 v = v"
  by (simp add: int32_def wrap32_def mod_pos_pos_trivial)

lemma wrap32_neg: "int32 v \<Longrightarrow> 0 \<le> v \<Longrightarrow> wrap32 (- v) = - v"
  by (rule wrap32_id) (simp add: int32_def)

text \<open>
  Claim C1. In single-quadrant mode (\<open>aMultiquadrant\<close> false), with \<open>(dx, dy)\<close> the
  difference \<open>E - S\<close> that the program computes and non-negative magnitudes \<open>(cx, cy)\<close>,
  the resolved relative centre \<open>r\<close> is \<open>(-cx, cy)\<close> when \<open>dx \<ge> 0\<close> and \<open>dy \<ge> 0\<close>,
  \<open>(cx, cy)\<close> when \<open>dx \<ge> 0\<close> and \<open>dy < 0\<close>, \<open>(-cx, -cy)\<close> when \<open>dx < 0\<close> and \<open>dy \<ge> 0\<close>,
  and \<open>(cx, -cy)\<close> when \<open>dx < 0\<close> and \<open>dy < 0\<close>; when the flag \<open>k\<close> is false the whole of
  \<open>r\<close> is negated; and the centre stored on the item is \<open>S\<close> plus the resulting vector, as
  the program adds. Whenever the difference and the sum fit in an \<^verbatim>\<open>int\<close>, \<open>(dx, dy)\<close>
  is the exact difference and the stored centre is the exact sum.
\<close>

theorem C1_single_quadrant_center:
  fixes S E :: wxPoint and cx cy d :: int and k neg :: bool and it :: GERBER_DRAW_ITEM
    and na :: GBR_NETLIST_METADATA and sz :: wxSize
  assumes "0 \<le> cx" and "0 \<le> cy" and "int32 cx" and "int32 cy"
  defines "dx \<equiv> x (pt_sub E S)" and "dy \<equiv> y (pt_sub E S)"
  defines "r \<equiv> (if 0 \<le> dx \<and> 0 \<le> dy then \<lparr>x = - cx, y = cy\<rparr>
                 else if 0 \<le> dx \<and> dy < 0 then \<lparr>x = cx, y = cy\<rparr>
                 else if dx < 0 \<and> 0 \<le> dy then \<lparr>x = - cx, y = - cy\<rparr>
                 else \<lparr>x = cx, y = - cy\<rparr>)"
  defines "r' \<equiv> (if k then r else \<lparr>x = - x r, y = - y r\<rparr>)"
  defines "c \<equiv> m_ArcCentre (fillArcGBRITEM it na d S E \<lparr>x = cx, y = cy\<rparr> sz k False neg)"
  shows "c = pt_add S r'
         \<and> (int32 (x E - x S) \<longrightarrow> dx = x E - x S)
         \<and> (int32 (y E - y S) \<longrightarrow> dy = y E - y S)
         \<and> (int32 (x S + x r') \<and> int32 (y S + y r') \<longrightarrow>
               c = \<lparr>x = x S + x r', y = y S + y r'\<rparr>)"
proof -
  have ncx: "wrap32 (- cx) = - cx" and ncy: "wrap32 (- cy) = - cy"
    using assms(1-4) by (simp_all add: wrap32_neg)
  have pcx: "wrap32 cx = cx" and pcy: "wrap32 cy = cy"
    using assms(3,4) by (simp_all add: wrap32_id)
  have c: "c = pt_add S r'"
    unfolding c_def fillArcGBRITEM_ArcCentre r'_def r_def dx_def dy_def
    by (simp add: single_quadrant_center_def pt_add_def pt_neg_def Let_def ncx ncy pcx pcy
        add.commute)
  have d: "int32 (x E - x S) \<longrightarrow> dx = x E - x S" "int32 (y E - y S) \<longrightarrow> dy = y E - y S"
    by (simp_all add: dx_def dy_def pt_sub_def wrap32_id)
  have e: "int32 (x S + x r') \<and> int32 (y S + y r') \<longrightarrow> c = \<lparr>x = x S + x r', y = y S + y r'\<rparr>"
    unfolding c by (simp add: pt_add_def wrap32_id)
  from c d e show ?thesis by simp
qed

theorem C1_single_quadrant_center_witness:
  "(0::int) \<le> 10 \<and> (0::int) \<le> 2 \<and> int32 10 \<and> int32 2 \<and> (0::int) \<le> 5 \<and> (0::int) \<le> 0
   \<and> int32 5 \<and> int32 0
   \<and> m_ArcCentre (fillArcGBRITEM (new_GERBER_DRAW_ITEM True) [] 10
       \<lparr>x = 3, y = 4\<rparr> \<lparr>x = 13, y = 14\<rparr> \<lparr>x = 10, y = 2\<rparr> \<lparr>x = 1, y = 1\<rparr> True False False)
     = \<lparr>x = - 7, y = 6\<rparr>
   \<and> m_ArcCentre (fillArcGBRITEM (new_GERBER_DRAW_ITEM True) [] 10
       \<lparr>x = 3, y = 4\<rparr> \<lparr>x = 13, y = - 6\<rparr> \<lparr>x = 10, y = 2\<rparr> \<lparr>x = 1, y = 1\<rparr> False False False)
     = \<lparr>x = - 7, y = 2\<rparr>
   \<and> m_ArcCentre (fillArcGBRITEM (new_GERBER_DRAW_ITEM True) [] 10
       \<lparr>x = 3, y = 4\<rparr> \<lparr>x = - 7, y = 14\<rparr> \<lparr>x = 10, y = 2\<rparr> \<lparr>x = 1, y = 1\<rparr> True False False)
     = \<lparr>x = - 7, y = 2\<rparr>
   \<and> m_ArcCentre (fillArcGBRITEM (new_GERBER_DRAW_ITEM True) [] 10
       \<lparr>x = 3, y = 4\<rparr> \<lparr>x = - 7, y = - 6\<rparr> \<lparr>x = 10, y = 2\<rparr> \<lparr>x = 1, y = 1\<rparr> False False False)
     = \<lparr>x = - 7, y = 6\<rparr>
   \<and> m_ArcCentre (fillArcGBRITEM (new_GERBER_DRAW_ITEM True) [] 10
       \<lparr>x = - 2147483648, y = 0\<rparr> \<lparr>x = 1, y = 0\<rparr> \<lparr>x = 5, y = 0\<rparr> \<lparr>x = 1, y = 1\<rparr>
       True False False)
     = \<lparr>x = 2147483643, y = 0\<rparr>"
proof -
  have h: "(0::int) \<le> 10" "(0::int) \<le> 2" "int32 10" "int32 2"
    and h5: "(0::int) \<le> 5" "(0::int) \<le> 0" "int32 5" "int32 0"
    by (simp_all add: int32_def)
  show ?thesis
    using h h5
      C1_single_quadrant_center [OF h, where S = "\<lparr>x = 3, y = 4\<rparr>"
        and E = "\<lparr>x = 13, y = 14\<rparr>" and it = "new_GERBER_DRAW_ITEM True" and na = "[]"
        and d = 10 and sz = "\<lparr>x = 1, y = 1\<rparr>" and k = True and neg = False]
      C1_single_quadrant_center [OF h, where S = "\<lparr>x = 3, y = 4\<rparr>"
        and E = "\<lparr>x = 13, y = - 6\<rparr>" and it = "new_GERBER_DRAW_ITEM True" and na = "[]"
        and d = 10 and sz = "\<lparr>x = 1, y = 1\<rparr>" and k = False and neg = False]
      C1_single_quadrant_center [OF h, where S = "\<lparr>x = 3, y = 4\<rparr>"
        and E = "\<lparr>x = - 7, y = 14\<rparr>" and it = "new_GERBER_DRAW_ITEM True" and na = "[]"
        and d = 10 and sz = "\<lparr>x = 1, y = 1\<rparr>" and k = True and neg = False]
      C1_single_quadrant_center [OF h, where S = "\<lparr>x = 3, y = 4\<rparr>"
        and E = "\<lparr>x = - 7, y = - 6\<rparr>" and it = "new_GERBER_DRAW_ITEM True" and na = "[]"
        and d = 10 and sz = "\<lparr>x = 1, y = 1\<rparr>" and k = False and neg = False]
      C1_single_quadrant_center [OF h5, where S = "\<lparr>x = - 2147483648, y = 0\<rparr>"
        and E = "\<lparr>x = 1, y = 0\<rparr>" and it = "new_GERBER_DRAW_ITEM True" and na = "[]"
        and d = 10 and sz = "\<lparr>x = 1, y = 1\<rparr>" and k = True and neg = False]
    by (simp add: pt_add_def pt_sub_def wrap32_def int32_def)
qed

text \<open>
  Claim C6. \<^verbatim>\<open>fillArcGBRITEM\<close> stores the input pair \<open>(start, end)\<close> unchanged on the item
  when the clockwise flag is true, and swapped (stored start = input end, stored end =
  input start) when it is false, in multiquadrant and in single-quadrant mode alike.
\<close>

theorem C6_start_end_canonical:
  "(k \<longrightarrow> m_Start (fillArcGBRITEM it na d S E C sz k mq neg) = S
        \<and> m_End (fillArcGBRITEM it na d S E C sz k mq neg) = E)
   \<and> (\<not> k \<longrightarrow> m_Start (fillArcGBRITEM it na d S E C sz k mq neg) = E
        \<and> m_End (fillArcGBRITEM it na d S E C sz k mq neg) = S)"
  by (simp add: fillArcGBRITEM_Start_End)

theorem C6_start_end_canonical_witness:
  "m_Start (fillArcGBRITEM (new_GERBER_DRAW_ITEM True) [] 10
       \<lparr>x = 1, y = 2\<rparr> \<lparr>x = 3, y = 4\<rparr> \<lparr>x = 5, y = 6\<rparr> \<lparr>x = 1, y = 1\<rparr> True False False)
     = \<lparr>x = 1, y = 2\<rparr>
   \<and> m_End (fillArcGBRITEM (new_GERBER_DRAW_ITEM True) [] 10
       \<lparr>x = 1, y = 2\<rparr> \<lparr>x = 3, y = 4\<rparr> \<lparr>x = 5, y = 6\<rparr> \<lparr>x = 1, y = 1\<rparr> True False False)
     = \<lparr>x = 3, y = 4\<rparr>
   \<and> m_Start (fillArcGBRITEM (new_GERBER_DRAW_ITEM True) [] 10
       \<lparr>x = 1, y = 2\<rparr> \<lparr>x = 3, y = 4\<rparr> \<lparr>x = 5, y = 6\<rparr> \<lparr>x = 1, y = 1\<rparr> False True False)
     = \<lparr>x = 3, y = 4\<rparr>
   \<and> m_End (fillArcGBRITEM (new_GERBER_DRAW_ITEM True) [] 10
       \<lparr>x = 1, y = 2\<rparr> \<lparr>x = 3, y = 4\<rparr> \<lparr>x = 5, y = 6\<rparr> \<lparr>x = 1, y = 1\<rparr> False True False)
     = \<lparr>x = 1, y = 2\<rparr>"
  using
    C6_start_end_canonical [where k = True and it = "new_GERBER_DRAW_ITEM True" and na = "[]"
      and d = 10 and S = "\<lparr>x = 1, y = 2\<rparr>" and E = "\<lparr>x = 3, y = 4\<rparr>"
      and C = "\<lparr>x = 5, y = 6\<rparr>" and sz = "\<lparr>x = 1, y = 1\<rparr>" and mq = False and neg = False]
    C6_start_end_canonical [where k = False and it = "new_GERBER_DRAW_ITEM True" and na = "[]"
      and d = 10 and S = "\<lparr>x = 1, y = 2\<rparr>" and E = "\<lparr>x = 3, y = 4\<rparr>"
      and C = "\<lparr>x = 5, y = 6\<rparr>" and sz = "\<lparr>x = 1, y = 1\<rparr>" and mq = True and neg = False]
  by simp

subsection \<open>Arcs in region outlines\<close>

lemma poly_Append_Some:
  "poly \<noteq> [] \<Longrightarrow> poly_Append v poly = Some (butlast poly @ [last poly @ [v]])"
  by (simp add: poly_Append_def)

lemma wrap32_rot:
  assumes "0 \<le> i" and "i \<le> n" and "n \<le> 21474836"
  shows "wrap32 (i * increment_angle) = i * 100"
    and "wrap32 (wrap32 (n - i) * increment_angle) = (n - i) * 100"
proof -
  have "int32 (i * 100)" "int32 (n - i)" "int32 ((n - i) * 100)"
    using assms by (simp_all add: int32_def)
  then show "wrap32 (i * increment_angle) = i * 100"
    and "wrap32 (wrap32 (n - i) * increment_angle) = (n - i) * 100"
    by (simp_all add: wrap32_id increment_angle_def)
qed

lemma fillArcPOLY_loop_step:
  assumes "poly \<noteq> []" and "0 \<le> ii" and "ii < n" and "n \<le> 21474836"
  shows "fillArcPOLY_loop rot k s e c n ii poly =
         fillArcPOLY_loop rot k s e c n (ii + 1)
           (butlast poly @ [last poly @ [arc_vertex rot k s c n ii]])"
proof -
  have le: "ii \<le> n" using assms(3) by simp
  have w: "wrap32 (ii * increment_angle) = ii * 100"
    "wrap32 (wrap32 (n - ii) * increment_angle) = (n - ii) * 100"
    by (rule wrap32_rot [OF assms(2) le assms(4)])+
  have m: "ii \<noteq> 2 ^ 31 - 1" using assms by simp
  show ?thesis
    using assms(1,3) m
    by (subst fillArcPOLY_loop.simps)
       (simp add: poly_Append_Some w arc_vertex_def Let_def del: of_int_mult)
qed

lemma fillArcPOLY_loop_last:
  assumes "poly \<noteq> []" and "n \<le> 21474836"
  shows "fillArcPOLY_loop rot k s e c n n poly =
         Some (butlast poly @ [last poly @ [pt_add (if k then e else s) c]])"
proof -
  have m: "n \<noteq> 2 ^ 31 - 1" using assms by simp
  have "fillArcPOLY_loop rot k s e c n n poly =
        fillArcPOLY_loop rot k s e c n (n + 1)
          (butlast poly @ [last poly @ [pt_add (if k then e else s) c]])"
    using assms(1) m by (subst fillArcPOLY_loop.simps) (simp add: poly_Append_Some Let_def)
  also have "\<dots> = Some (butlast poly @ [last poly @ [pt_add (if k then e else s) c]])"
    by (subst fillArcPOLY_loop.simps) simp
  finally show ?thesis .
qed

lemma fillArcPOLY_loop_vertices:
  assumes "poly \<noteq> []" and "0 \<le> ii" and "ii \<le> n" and "n \<le> 21474836"
  shows "fillArcPOLY_loop rot k s e c n ii poly =
           Some (butlast poly @
                 [last poly @ map (arc_vertex rot k s c n) [ii..n - 1]
                  @ [pt_add (if k then e else s) c]])"
  using assms(1-3)
proof (induction "nat (n - ii)" arbitrary: ii poly)
  case 0
  then have "ii = n" by simp
  with "0.prems"(1) assms(4) show ?case by (simp add: fillArcPOLY_loop_last)
next
  case (Suc m)
  then have lt: "ii < n" and m: "m = nat (n - (ii + 1))" by simp_all
  let ?poly' = "butlast poly @ [last poly @ [arc_vertex rot k s c n ii]]"
  have ih: "fillArcPOLY_loop rot k s e c n (ii + 1) ?poly' =
           Some (butlast ?poly' @
                 [last ?poly' @ map (arc_vertex rot k s c n) [ii + 1..n - 1]
                  @ [pt_add (if k then e else s) c]])"
    using lt Suc.prems(2) by (intro Suc.hyps(1) [OF m]) simp_all
  have upto: "[ii..n - 1] = ii # [ii + 1..n - 1]"
    using lt by (simp add: upto_rec1)
  show ?case
    unfolding fillArcPOLY_loop_step [OF Suc.prems(1) Suc.prems(2) lt assms(4)] ih upto by simp
qed

lemma fillArcPOLY_loop_outline:
  assumes "fillArcPOLY_loop rot k s e c n ii poly = Some poly'"
    and "poly \<noteq> []" and "ii \<le> n \<or> last poly \<noteq> []"
  shows "poly' \<noteq> [] \<and> last poly' \<noteq> []"
  using assms
proof (induction rot k s e c n ii poly rule: fillArcPOLY_loop.induct)
  case (1 rot k s e c n ii poly)
  show ?case
  proof (cases "ii \<le> n")
    case False
    with "1.prems" show ?thesis
      by (simp add: fillArcPOLY_loop.simps [of rot k s e c n ii poly])
  next
    case True
    define v where "v = pt_add (if ii < n
        then rot s (- (if k then real_of_int (wrap32 (ii * increment_angle))
                       else real_of_int (wrap32 (wrap32 (n - ii) * increment_angle))))
        else (if k then e else s)) c"
    define poly1 where "poly1 = butlast poly @ [last poly @ [v]]"
    have app: "poly_Append v poly = Some poly1"
      using "1.prems"(2) by (simp add: poly_Append_Some poly1_def)
    have p1: "poly1 \<noteq> []" "last poly1 \<noteq> []" by (simp_all add: poly1_def)
    have run: "ii \<noteq> 2 ^ 31 - 1 \<and> fillArcPOLY_loop rot k s e c n (ii + 1) poly1 = Some poly'"
      using "1.prems"(1) True app
      by (subst (asm) fillArcPOLY_loop.simps)
         (simp add: Let_def v_def [symmetric] split: if_splits)
    show ?thesis
      using "1.IH" [OF True refl refl refl app [unfolded v_def]] run p1 by simp
  qed
qed

lemma floor_sgn_abs: "sgn \<lfloor>\<bar>r :: real\<bar>\<rfloor> * \<bar>\<lfloor>\<bar>r\<bar>\<rfloor>\<bar> = \<lfloor>\<bar>r\<bar>\<rfloor>"
  by (simp only: sgn_mult_abs)

lemma rounded_arc_steps_floor:
  "rounded_arc_steps rnd sa ea =
     \<lfloor>\<bar>rnd (rnd (sa - (if sa > ea then rnd (ea + 3600) else ea)) / 100)\<bar>\<rfloor>"
  unfolding rounded_arc_steps_def Let_def by (rule floor_sgn_abs)

lemma rounded_arc_steps_nonneg: "0 \<le> rounded_arc_steps rnd sa ea"
  unfolding rounded_arc_steps_floor by (rule iffD2 [OF zero_le_floor]) (rule abs_ge_zero)

lemma double_to_int_steps:
  assumes "rounded_arc_steps rnd sa ea \<le> 21474836"
  shows "double_to_int
           \<bar>rnd (rnd (sa - (if sa > ea then rnd (ea + 3600) else ea))
                   / real_of_int increment_angle)\<bar>
         = Some (rounded_arc_steps rnd sa ea)"
proof -
  define q where "q = rnd (rnd (sa - (if sa > ea then rnd (ea + 3600) else ea)) / 100)"
  have n: "rounded_arc_steps rnd sa ea = \<lfloor>\<bar>q\<bar>\<rfloor>"
    unfolding q_def by (rule rounded_arc_steps_floor)
  have "0 \<le> \<lfloor>\<bar>q\<bar>\<rfloor>" by simp
  with assms have "int32 \<lfloor>\<bar>q\<bar>\<rfloor>"
    unfolding n int32_def by simp
  then have r: "double_to_int \<bar>q\<bar> = Some \<lfloor>\<bar>q\<bar>\<rfloor>"
    by (simp add: double_to_int_def)
  have i: "real_of_int increment_angle = 100"
    by (simp add: increment_angle_def)
  show ?thesis
    unfolding i n using r unfolding q_def .
qed

lemma wrap32_add_sub: "int32 v \<Longrightarrow> wrap32 (wrap32 (v - c) + c) = v"
proof -
  assume v: "int32 v"
  have "wrap32 (wrap32 (v - c) + c) = (v + 2 ^ 31) mod 2 ^ 32 - 2 ^ 31"
    by (simp add: wrap32_def mod_simps algebra_simps)
  also have "\<dots> = v"
    using v by (simp add: int32_def mod_pos_pos_trivial)
  finally show ?thesis .
qed

lemma pt_add_pt_sub: "wxPoint_ok p \<Longrightarrow> pt_add (pt_sub p c) c = p"
  by (simp add: pt_add_def pt_sub_def wxPoint_ok_def wrap32_add_sub)

lemma double_to_int_abs: "double_to_int \<bar>r\<bar> = Some c \<Longrightarrow> 0 \<le> c"
  by (auto simp add: double_to_int_def Let_def split: if_splits)

lemma fillArcPOLY_loop_outline0:
  assumes "fillArcPOLY_loop rot k s e c n 0 poly = Some poly'"
    and "double_to_int \<bar>r\<bar> = Some n" and "poly \<noteq> []"
  shows "poly' \<noteq> [] \<and> last poly' \<noteq> []"
  using fillArcPOLY_loop_outline [OF assms(1) assms(3)] double_to_int_abs [OF assms(2)]
  by simp

lemma fillArcPOLY_outline:
  assumes "fillArcPOLY env it na S E C k mq neg = Some it'"
  shows "m_Polygon it' \<noteq> [] \<and> last (m_Polygon it') \<noteq> []"
  using assms unfolding fillArcPOLY_def Let_def
  by (auto simp add: poly_OutlineCount_def poly_NewOutline_def
      split: if_splits option.splits dest: fillArcPOLY_loop_outline0)

lemma fillArcPOLY_vertices:
  fixes env :: collaborators and it :: GERBER_DRAW_ITEM and S E C :: wxPoint and k mq :: bool
  defines "center \<equiv> (if mq then pt_add S C else pt_add (single_quadrant_center S E C k) S)"
  defines "p0 \<equiv> pt_sub (if k then S else E) center"
  defines "p1 \<equiv> pt_sub (if k then E else S) center"
  defines "n \<equiv> rounded_arc_steps (round_double env)
                  (ArcTangente env (y p0) (x p0)) (ArcTangente env (y p1) (x p1))"
  defines "vs \<equiv> map (arc_vertex (RotatePoint env) k p0 center n) [0..n - 1] @ [E]"
  defines "poly0 \<equiv> (if m_Polygon it = [] then [[]] else m_Polygon it)"
  assumes img: "m_GerberImageFile it" and E: "wxPoint_ok E" and small: "n \<le> 21474836"
  shows "fillArcPOLY env it na S E C k mq neg =
           Some (it\<lparr>m_LayerNegative := neg, m_NetAttributes := na,
                    m_Polygon := butlast poly0 @ [last poly0 @ vs]\<rparr>)"
proof -
  have n0: "0 \<le> n" unfolding n_def by (rule rounded_arc_steps_nonneg)
  have ne: "poly0 \<noteq> []" by (simp add: poly0_def)
  have fin: "pt_add (if k then p1 else p0) center = E"
    using E by (simp add: p0_def p1_def pt_add_pt_sub)
  have loop: "fillArcPOLY_loop (RotatePoint env) k p0 p1 center n 0 poly0 =
                Some (butlast poly0 @ [last poly0 @ vs])"
    unfolding fillArcPOLY_loop_vertices [OF ne order_refl n0 small] vs_def fin by simp
  have cnt: "double_to_int
           \<bar>round_double env (round_double env (ArcTangente env (y p0) (x p0)
               - (if ArcTangente env (y p0) (x p0) > ArcTangente env (y p1) (x p1)
                  then round_double env (ArcTangente env (y p1) (x p1) + 3600)
                  else ArcTangente env (y p1) (x p1)))
             / real_of_int increment_angle)\<bar> = Some n"
    using small unfolding n_def by (rule double_to_int_steps)
  have img': "m_GerberImageFile (SetLayerPolarity neg it)"
    using img by (simp add: SetLayerPolarity_def)
  have poly: "(if poly_OutlineCount (m_Polygon (SetNetAttributes na (SetLayerPolarity neg it))) = 0
               then poly_NewOutline (m_Polygon (SetNetAttributes na (SetLayerPolarity neg it)))
               else m_Polygon (SetNetAttributes na (SetLayerPolarity neg it))) = poly0"
    by (simp add: poly0_def poly_OutlineCount_def poly_NewOutline_def SetLayerPolarity_def
        SetNetAttributes_def)
  have res: "(SetNetAttributes na (SetLayerPolarity neg it))\<lparr>m_Polygon := P\<rparr> =
               it\<lparr>m_LayerNegative := neg, m_NetAttributes := na, m_Polygon := P\<rparr>" for P
    by (simp add: SetLayerPolarity_def SetNetAttributes_def)
  show ?thesis
    unfolding fillArcPOLY_def Let_def fillArcGBRITEM_ArcCentre fillArcGBRITEM_Start_End
      center_def [symmetric] p0_def [symmetric] p1_def [symmetric] cnt poly
    using img' by (simp add: loop res)
qed

lemma example_arc_steps:
  "rounded_arc_steps binary64_round 0 900 = 9"
  "rounded_arc_steps binary64_round
     (6294928472926541 / 4398046511104) (- (5579797107054259 / 4398046511104)) = 8"
  "spec_arc_steps
     (6294928472926541 / 4398046511104) (- (5579797107054259 / 4398046511104)) = 9"
  "rounded_arc_steps binary64_round 0 (8418792804481495 / 8796093022208) = 9"
  unfolding rounded_arc_steps_def spec_arc_steps_def Let_def
  by (simp_all add: binary64_round_def binary_exponent_def compute_floorlog
      round_half_even_def Let_def)

lemma example_upto: "[0..8] = [0, 1, 2, 3, 4, 5, 6, 7, 8::int]" "[0..7] = [0, 1, 2, 3, 4, 5, 6, 7::int]"
  by (simp_all add: upto_rec1)

text \<open>
  Claim C2. The claim takes the step count to be the absolute span divided by 100 and
  rounded toward zero, and the vertices to run from the true start of the arc. Both fail.
  For the quarter circle from \<open>(-4, 3)\<close> to \<open>(-3, -4)\<close> about the origin the two angles
  are the doubles 1431.3010235415597 and -1268.6989764584403; their exact span is 900
  and the claim's count is 9, but the sum with 3600 is rounded to a double, the program's
  span is 899.9999999999998, and 8 interpolated vertices and the end point are appended.
  For the arc from \<open>(-1, 10)\<close> to \<open>(10, 0)\<close> about the origin with the clockwise flag
  false, the first vertex appended is the end point turned back by nine steps of ten
  degrees, \<open>(0, 10)\<close>, and not the start \<open>(-1, 10)\<close>.
\<close>

theorem C2_fillArcPOLY_counterexample:
  "spec_arc_steps (ArcTangente env_example 3 (- 4)) (ArcTangente env_example (- 4) (- 3)) = 9
   \<and> (case fillArcPOLY env_example (new_GERBER_DRAW_ITEM True) ''net''
              \<lparr>x = - 4, y = 3\<rparr> \<lparr>x = - 3, y = - 4\<rparr> \<lparr>x = 4, y = - 3\<rparr> True True False of
         None \<Rightarrow> False
       | Some it' \<Rightarrow> map length (m_Polygon it') = [8 + 1])
   \<and> (case fillArcPOLY env_example (new_GERBER_DRAW_ITEM True) ''net''
              \<lparr>x = - 1, y = 10\<rparr> \<lparr>x = 10, y = 0\<rparr> \<lparr>x = 1, y = - 10\<rparr> False True False of
         None \<Rightarrow> False
       | Some it' \<Rightarrow> map hd (m_Polygon it') = [\<lparr>x = 0, y = 10\<rparr>])
   \<and> \<lparr>x = 0, y = 10\<rparr> \<noteq> \<lparr>x = - 1, y = 10 :: int\<rparr>"
proof -
  have img: "m_GerberImageFile (new_GERBER_DRAW_ITEM True)"
    by (simp add: new_GERBER_DRAW_ITEM_def)
  have ok: "wxPoint_ok \<lparr>x = - 3, y = - 4\<rparr>" "wxPoint_ok \<lparr>x = 10, y = 0\<rparr>"
    by (simp_all add: wxPoint_ok_def int32_def)
  have ev: "pt_add \<lparr>x = - 4, y = 3\<rparr> \<lparr>x = 4, y = - 3\<rparr> = \<lparr>x = 0, y = 0\<rparr>"
    "pt_add \<lparr>x = - 1, y = 10\<rparr> \<lparr>x = 1, y = - 10\<rparr> = \<lparr>x = 0, y = 0\<rparr>"
    "pt_sub p \<lparr>x = 0, y = 0\<rparr> = \<lparr>x = wrap32 (x p), y = wrap32 (y p)\<rparr>" for p
    by (simp_all add: pt_add_def pt_sub_def wrap32_def)
  have at: "ArcTangente env_example 3 (- 4) = 6294928472926541 / 4398046511104"
    "ArcTangente env_example (- 4) (- 3) = - 5579797107054259 / 4398046511104"
    "ArcTangente env_example 10 (- 1) = 8418792804481495 / 8796093022208"
    "ArcTangente env_example 0 10 = 0"
    "round_double env_example = binary64_round"
    by (simp_all add: env_example_def arctangente_table_def)
  have w: "wrap32 (- 4) = - 4" "wrap32 3 = 3" "wrap32 (- 3) = - 3" "wrap32 10 = 10"
    "wrap32 0 = 0" "wrap32 (- 1) = - 1"
    by (simp_all add: wrap32_def)
  have one: "fillArcPOLY env_example (new_GERBER_DRAW_ITEM True) ''net''
              \<lparr>x = - 4, y = 3\<rparr> \<lparr>x = - 3, y = - 4\<rparr> \<lparr>x = 4, y = - 3\<rparr> True True False =
             Some ((new_GERBER_DRAW_ITEM True)
               \<lparr>m_LayerNegative := False, m_NetAttributes := ''net'',
                m_Polygon := [map (arc_vertex (RotatePoint env_example) True
                                     \<lparr>x = - 4, y = 3\<rparr> \<lparr>x = 0, y = 0\<rparr> 8) [0..7]
                              @ [\<lparr>x = - 3, y = - 4\<rparr>]]\<rparr>)"
    using fillArcPOLY_vertices [where env = env_example and it = "new_GERBER_DRAW_ITEM True"
        and na = "''net''" and S = "\<lparr>x = - 4, y = 3\<rparr>" and E = "\<lparr>x = - 3, y = - 4\<rparr>"
        and C = "\<lparr>x = 4, y = - 3\<rparr>" and k = True and mq = True and neg = False]
    by (simp add: img ok ev at w example_arc_steps new_GERBER_DRAW_ITEM_def)
  have two: "fillArcPOLY env_example (new_GERBER_DRAW_ITEM True) ''net''
              \<lparr>x = - 1, y = 10\<rparr> \<lparr>x = 10, y = 0\<rparr> \<lparr>x = 1, y = - 10\<rparr> False True False =
             Some ((new_GERBER_DRAW_ITEM True)
               \<lparr>m_LayerNegative := False, m_NetAttributes := ''net'',
                m_Polygon := [map (arc_vertex (RotatePoint env_example) False
                                     \<lparr>x = 10, y = 0\<rparr> \<lparr>x = 0, y = 0\<rparr> 9) [0..8]
                              @ [\<lparr>x = 10, y = 0\<rparr>]]\<rparr>)"
    using fillArcPOLY_vertices [where env = env_example and it = "new_GERBER_DRAW_ITEM True"
        and na = "''net''" and S = "\<lparr>x = - 1, y = 10\<rparr>" and E = "\<lparr>x = 10, y = 0\<rparr>"
        and C = "\<lparr>x = 1, y = - 10\<rparr>" and k = False and mq = True and neg = False]
    by (simp add: img ok ev at w example_arc_steps new_GERBER_DRAW_ITEM_def)
  have first: "arc_vertex (RotatePoint env_example) False \<lparr>x = 10, y = 0\<rparr> \<lparr>x = 0, y = 0\<rparr> 9 0
                 = \<lparr>x = 0, y = 10\<rparr>"
    by (simp add: arc_vertex_def env_example_def rotate_table_def pt_add_def wrap32_def)
  show ?thesis
    unfolding one two
    by (simp add: at example_arc_steps example_upto first)
qed

text \<open>
  Claim C2, amended. For an arc appended to the outline of an item of the image, let \<open>n\<close>
  be the absolute span divided by 100 and rounded toward zero as the program computes it:
  the sum of the end angle and the full turn of 3600 (taken when the start angle is
  greater than the end angle), the difference of the angles and the quotient by 100 are
  each rounded to a double. If \<open>n\<close> is at most 21474836 (so that \<open>100 * n\<close> is an
  \<^verbatim>\<open>int\<close>) and the end point \<open>E\<close> has \<^verbatim>\<open>int\<close> coordinates, \<^verbatim>\<open>fillArcPOLY\<close> appends to the
  last outline (a new one when there is none) exactly \<open>n\<close> interpolated vertices and then
  a final vertex that is exactly the true end \<open>E\<close>. With the clockwise flag true the
  interpolated vertices are the start turned by 0, 1, ..., \<open>n - 1\<close> steps of ten degrees,
  so the first one is the true start when there is at least one step and turning by zero
  leaves a point where it is. With the flag false they are the end turned by \<open>n\<close>,
  \<open>n - 1\<close>, ..., 1 steps.
\<close>

theorem C2_fillArcPOLY_amended:
  fixes env :: collaborators and it :: GERBER_DRAW_ITEM and S E C :: wxPoint and k mq :: bool
  defines "center \<equiv> (if mq then pt_add S C else pt_add (single_quadrant_center S E C k) S)"
  defines "p0 \<equiv> pt_sub (if k then S else E) center"
  defines "p1 \<equiv> pt_sub (if k then E else S) center"
  defines "n \<equiv> rounded_arc_steps (round_double env)
                  (ArcTangente env (y p0) (x p0)) (ArcTangente env (y p1) (x p1))"
  defines "vs \<equiv> map (arc_vertex (RotatePoint env) k p0 center n) [0..n - 1] @ [E]"
  defines "poly0 \<equiv> (if m_Polygon it = [] then [[]] else m_Polygon it)"
  assumes img: "m_GerberImageFile it" and E: "wxPoint_ok E" and small: "n \<le> 21474836"
  shows "0 \<le> n \<and> length vs = nat n + 1 \<and> last vs = E
         \<and> (k \<and> 0 < n \<and> wxPoint_ok S \<and> RotatePoint env p0 0 = p0 \<longrightarrow> hd vs = S)
         \<and> fillArcPOLY env it na S E C k mq neg =
             Some (it\<lparr>m_LayerNegative := neg, m_NetAttributes := na,
                      m_Polygon := butlast poly0 @ [last poly0 @ vs]\<rparr>)"
proof -
  have n0: "0 \<le> n" unfolding n_def by (rule rounded_arc_steps_nonneg)
  have len: "length vs = nat n + 1" using n0 by (simp add: vs_def)
  have lst: "last vs = E" by (simp add: vs_def)
  have hd: "hd vs = S" if "k" "0 < n" "wxPoint_ok S" "RotatePoint env p0 0 = p0"
  proof -
    from that(2) have "[0..n - 1] = 0 # [1..n - 1]" by (simp add: upto_rec1)
    then have "hd vs = arc_vertex (RotatePoint env) k p0 center n 0" by (simp add: vs_def)
    also have "\<dots> = pt_add p0 center" using that(1,4) by (simp add: arc_vertex_def)
    also have "\<dots> = S" using that(1,3) by (simp add: p0_def pt_add_pt_sub)
    finally show ?thesis .
  qed
  have run: "fillArcPOLY env it na S E C k mq neg =
             Some (it\<lparr>m_LayerNegative := neg, m_NetAttributes := na,
                      m_Polygon := butlast poly0 @ [last poly0 @ vs]\<rparr>)"
    unfolding poly0_def vs_def n_def p0_def p1_def center_def
    using img E small [unfolded n_def p0_def p1_def center_def]
    by (rule fillArcPOLY_vertices)
  from n0 len lst hd run show ?thesis by blast
qed

theorem C2_fillArcPOLY_amended_witness:
  "m_GerberImageFile (new_GERBER_DRAW_ITEM True)
   \<and> wxPoint_ok \<lparr>x = 0, y = 10\<rparr> \<and> wxPoint_ok \<lparr>x = 10, y = 0\<rparr>
   \<and> fillArcPOLY env_example (new_GERBER_DRAW_ITEM True) ''net''
          \<lparr>x = 10, y = 0\<rparr> \<lparr>x = 0, y = 10\<rparr> \<lparr>x = - 10, y = 0\<rparr> True True False =
       Some ((new_GERBER_DRAW_ITEM True)
              \<lparr>m_NetAttributes := ''net'',
               m_Polygon := [[\<lparr>x = 10, y = 0\<rparr>, \<lparr>x = 10, y = 2\<rparr>, \<lparr>x = 9, y = 3\<rparr>,
                  \<lparr>x = 9, y = 5\<rparr>, \<lparr>x = 8, y = 6\<rparr>, \<lparr>x = 6, y = 8\<rparr>, \<lparr>x = 5, y = 9\<rparr>,
                  \<lparr>x = 3, y = 9\<rparr>, \<lparr>x = 2, y = 10\<rparr>, \<lparr>x = 0, y = 10\<rparr>]]\<rparr>)
   \<and> fillArcPOLY env_example (new_GERBER_DRAW_ITEM True) ''net''
          \<lparr>x = 0, y = 10\<rparr> \<lparr>x = 10, y = 0\<rparr> \<lparr>x = 0, y = - 10\<rparr> False True False =
       Some ((new_GERBER_DRAW_ITEM True)
              \<lparr>m_NetAttributes := ''net'',
               m_Polygon := [[\<lparr>x = 0, y = 10\<rparr>, \<lparr>x = 2, y = 10\<rparr>, \<lparr>x = 3, y = 9\<rparr>,
                  \<lparr>x = 5, y = 9\<rparr>, \<lparr>x = 6, y = 8\<rparr>, \<lparr>x = 8, y = 6\<rparr>, \<lparr>x = 9, y = 5\<rparr>,
                  \<lparr>x = 9, y = 3\<rparr>, \<lparr>x = 10, y = 2\<rparr>, \<lparr>x = 10, y = 0\<rparr>]]\<rparr>)"
proof -
  have img: "m_GerberImageFile (new_GERBER_DRAW_ITEM True)"
    by (simp add: new_GERBER_DRAW_ITEM_def)
  have ok: "wxPoint_ok \<lparr>x = 0, y = 10\<rparr>" "wxPoint_ok \<lparr>x = 10, y = 0\<rparr>"
    by (simp_all add: wxPoint_ok_def int32_def)
  have ev: "pt_add \<lparr>x = 10, y = 0\<rparr> \<lparr>x = - 10, y = 0\<rparr> = \<lparr>x = 0, y = 0\<rparr>"
    "pt_add \<lparr>x = 0, y = 10\<rparr> \<lparr>x = 0, y = - 10\<rparr> = \<lparr>x = 0, y = 0\<rparr>"
    "pt_sub p \<lparr>x = 0, y = 0\<rparr> = \<lparr>x = wrap32 (x p), y = wrap32 (y p)\<rparr>" for p
    by (simp_all add: pt_add_def pt_sub_def wrap32_def)
  have w: "wrap32 10 = 10" "wrap32 0 = 0"
    by (simp_all add: wrap32_def)
  have at: "ArcTangente env_example 0 10 = 0" "ArcTangente env_example 10 0 = 900"
    "round_double env_example = binary64_round"
    by (simp_all add: env_example_def)
  have small: "(9::int) \<le> 21474836" by simp
  have vs:
    "arc_vertex (RotatePoint env_example) True \<lparr>x = 10, y = 0\<rparr> \<lparr>x = 0, y = 0\<rparr> 9 0 = \<lparr>x = 10, y = 0\<rparr>"
    "arc_vertex (RotatePoint env_example) True \<lparr>x = 10, y = 0\<rparr> \<lparr>x = 0, y = 0\<rparr> 9 1 = \<lparr>x = 10, y = 2\<rparr>"
    "arc_vertex (RotatePoint env_example) True \<lparr>x = 10, y = 0\<rparr> \<lparr>x = 0, y = 0\<rparr> 9 2 = \<lparr>x = 9, y = 3\<rparr>"
    "arc_vertex (RotatePoint env_example) True \<lparr>x = 10, y = 0\<rparr> \<lparr>x = 0, y = 0\<rparr> 9 3 = \<lparr>x = 9, y = 5\<rparr>"
    "arc_vertex (RotatePoint env_example) True \<lparr>x = 10, y = 0\<rparr> \<lparr>x = 0, y = 0\<rparr> 9 4 = \<lparr>x = 8, y = 6\<rparr>"
    "arc_vertex (RotatePoint env_example) True \<lparr>x = 10, y = 0\<rparr> \<lparr>x = 0, y = 0\<rparr> 9 5 = \<lparr>x = 6, y = 8\<rparr>"
    "arc_vertex (RotatePoint env_example) True \<lparr>x = 10, y = 0\<rparr> \<lparr>x = 0, y = 0\<rparr> 9 6 = \<lparr>x = 5, y = 9\<rparr>"
    "arc_vertex (RotatePoint env_example) True \<lparr>x = 10, y = 0\<rparr> \<lparr>x = 0, y = 0\<rparr> 9 7 = \<lparr>x = 3, y = 9\<rparr>"
    "arc_vertex (RotatePoint env_example) True \<lparr>x = 10, y = 0\<rparr> \<lparr>x = 0, y = 0\<rparr> 9 8 = \<lparr>x = 2, y = 10\<rparr>"
    "arc_vertex (RotatePoint env_example) False \<lparr>x = 10, y = 0\<rparr> \<lparr>x = 0, y = 0\<rparr> 9 0 = \<lparr>x = 0, y = 10\<rparr>"
    "arc_vertex (RotatePoint env_example) False \<lparr>x = 10, y = 0\<rparr> \<lparr>x = 0, y = 0\<rparr> 9 1 = \<lparr>x = 2, y = 10\<rparr>"
    "arc_vertex (RotatePoint env_example) False \<lparr>x = 10, y = 0\<rparr> \<lparr>x = 0, y = 0\<rparr> 9 2 = \<lparr>x = 3, y = 9\<rparr>"
    "arc_vertex (RotatePoint env_example) False \<lparr>x = 10, y = 0\<rparr> \<lparr>x = 0, y = 0\<rparr> 9 3 = \<lparr>x = 5, y = 9\<rparr>"
    "arc_vertex (RotatePoint env_example) False \<lparr>x = 10, y = 0\<rparr> \<lparr>x = 0, y = 0\<rparr> 9 4 = \<lparr>x = 6, y = 8\<rparr>"
    "arc_vertex (RotatePoint env_example) False \<lparr>x = 10, y = 0\<rparr> \<lparr>x = 0, y = 0\<rparr> 9 5 = \<lparr>x = 8, y = 6\<rparr>"
    "arc_vertex (RotatePoint env_example) False \<lparr>x = 10, y = 0\<rparr> \<lparr>x = 0, y = 0\<rparr> 9 6 = \<lparr>x = 9, y = 5\<rparr>"
    "arc_vertex (RotatePoint env_example) False \<lparr>x = 10, y = 0\<rparr> \<lparr>x = 0, y = 0\<rparr> 9 7 = \<lparr>x = 9, y = 3\<rparr>"
    "arc_vertex (RotatePoint env_example) False \<lparr>x = 10, y = 0\<rparr> \<lparr>x = 0, y = 0\<rparr> 9 8 = \<lparr>x = 10, y = 2\<rparr>"
    by (simp_all add: arc_vertex_def env_example_def rotate_table_def pt_add_def wrap32_def)
  show ?thesis
    using img ok
      C2_fillArcPOLY_amended [where env = env_example and it = "new_GERBER_DRAW_ITEM True"
        and na = "''net''" and S = "\<lparr>x = 10, y = 0\<rparr>" and E = "\<lparr>x = 0, y = 10\<rparr>"
        and C = "\<lparr>x = - 10, y = 0\<rparr>" and k = True and mq = True and neg = False]
      C2_fillArcPOLY_amended [where env = env_example and it = "new_GERBER_DRAW_ITEM True"
        and na = "''net''" and S = "\<lparr>x = 0, y = 10\<rparr>" and E = "\<lparr>x = 10, y = 0\<rparr>"
        and C = "\<lparr>x = 0, y = - 10\<rparr>" and k = False and mq = True and neg = False]
    by (simp add: ev w at example_arc_steps example_upto vs new_GERBER_DRAW_ITEM_def)
qed

subsection \<open>G-commands\<close>

text \<open>
  Claim C10. \<^verbatim>\<open>G74\<close> (\<open>GC_TURN_OFF_360_INTERPOL\<close>) clears the 360 degree flag and also
  resets the interpolation mode to linear, whatever it was; \<^verbatim>\<open>G75\<close>
  (\<open>GC_TURN_ON_360_INTERPOL\<close>) sets the flag and changes nothing else, so the
  interpolation mode is kept. Both succeed and leave the text cursor where it was.
\<close>

theorem C10_G74_G75:
  "Execute_G_Command env text GC_TURN_OFF_360_INTERPOL s =
     Some (True, text, s\<lparr>m_360Arc_enbl := False, m_Iterpolation := GERB_INTERPOL_LINEAR_1X\<rparr>)
   \<and> Execute_G_Command env text GC_TURN_ON_360_INTERPOL s =
     Some (True, text, s\<lparr>m_360Arc_enbl := True\<rparr>)"
  by (simp add: Execute_G_Command_def)

text \<open>
  Claim C7. A G-code outside the recognized set makes \<^verbatim>\<open>Execute_G_Command\<close> return
  failure; the only change to the image is the message appended to the message list, so
  no interpreter state is mutated and no draw item is created; the text cursor is not
  moved.
\<close>

theorem C7_unknown_G_code:
  assumes "\<not> recognized_G_code g"
  shows "Execute_G_Command env text g s =
           Some (False, text, s\<lparr>m_MessagesList := m_MessagesList s @ [G_command_not_handled g]\<rparr>)"
  using assms
  by (cases g) (simp_all add: recognized_G_code_def Execute_G_Command_def AddMessageToList_def)

theorem C7_unknown_G_code_witness:
  "\<not> recognized_G_code (GC_other 10)
   \<and> Execute_G_Command env_example (Some ''X0Y0*'') (GC_other 10) image_example =
       Some (False, Some ''X0Y0*'',
             image_example\<lparr>m_MessagesList := [G_command_not_handled (GC_other 10)]\<rparr>)"
proof -
  have h: "\<not> recognized_G_code (GC_other 10)" by (simp add: recognized_G_code_def)
  show ?thesis
    using h C7_unknown_G_code [OF h, of env_example "Some ''X0Y0*''" image_example]
    by (simp add: image_example_def)
qed

subsection \<open>D-commands\<close>

text \<open>
  Claim C8. A D-command whose code is at least \<open>FIRST_DCODE\<close> succeeds; the code clamped
  to \<open>TOOLS_MAX_COUNT - 1\<close> becomes the selected tool; the aperture of that number is
  marked in use when the table has it and the table is unchanged when it has not; nothing
  else changes, in particular no item is created. This holds for every such code, above
  the last slot or not, defined in the table or not.
\<close>

theorem C8_tool_select:
  assumes "FIRST_DCODE \<le> D"
  defines "T \<equiv> min D (TOOLS_MAX_COUNT - 1)"
  shows "Execute_DCODE_Command env D s =
           Some (True,
                 s\<lparr>m_Current_Tool := T,
                   m_Aperture_List :=
                     (case m_Aperture_List s T of
                        None \<Rightarrow> m_Aperture_List s
                      | Some a \<Rightarrow> (m_Aperture_List s)(T \<mapsto> a\<lparr>D_CODE_m_InUse := True\<rparr>))\<rparr>)"
proof -
  have T: "(if D > TOOLS_MAX_COUNT - 1 then TOOLS_MAX_COUNT - 1 else D) = T"
    by (simp add: T_def min_def)
  show ?thesis
    using assms(1) unfolding Execute_DCODE_Command_def Let_def T
    by (simp add: mark_InUse_def GetDCODE_def split: option.split)
qed

theorem C8_tool_select_witness:
  "FIRST_DCODE \<le> 10 \<and> FIRST_DCODE \<le> 11 \<and> FIRST_DCODE \<le> 5000
   \<and> Execute_DCODE_Command env_example 10 image_example =
       Some (True, image_example\<lparr>m_Current_Tool := 10,
          m_Aperture_List := [10 \<mapsto> \<lparr>D_CODE_m_Size = \<lparr>x = 20, y = 20\<rparr>, D_CODE_m_Num_Dcode = 10,
                 D_CODE_m_Shape = APT_CIRCLE, D_CODE_m_InUse = True\<rparr>]\<rparr>)
   \<and> Execute_DCODE_Command env_example 11 image_example =
       Some (True, image_example\<lparr>m_Current_Tool := 11\<rparr>)
   \<and> Execute_DCODE_Command env_example 5000 image_example =
       Some (True, image_example\<lparr>m_Current_Tool := 999\<rparr>)"
proof -
  have h: "FIRST_DCODE \<le> 10" "FIRST_DCODE \<le> 11" "FIRST_DCODE \<le> 5000"
    by (simp_all add: FIRST_DCODE_def)
  show ?thesis
    using h C8_tool_select [OF h(1), of env_example image_example]
      C8_tool_select [OF h(2), of env_example image_example]
      C8_tool_select [OF h(3), of env_example image_example]
    by (simp add: image_example_def TOOLS_MAX_COUNT_def)
qed


lemma pen_code_below_FIRST_DCODE: "\<not> FIRST_DCODE \<le> 1" "\<not> FIRST_DCODE \<le> 2" "\<not> FIRST_DCODE \<le> 3"
  by (simp_all add: FIRST_DCODE_def)

text \<open>
  Claim C9. Pen code 1 outside polygon-fill mode, with an arc interpolation mode. If a
  relative centre is pending (\<open>m_LastCoordIsIJPos\<close>) the item created is the arc
  filled by \<^verbatim>\<open>fillArcGBRITEM\<close> and the marker is cleared; if none is pending the
  item is a line from the previous to the current position and no message is logged. In
  both cases the command succeeds, the item is appended to the list and handed to
  \<^verbatim>\<open>StepAndRepeatItem\<close>, whose copies follow it, and the previous position becomes
  the current position.
\<close>

theorem C9_normal_D01_arc_mode:
  fixes s :: GERBER_FILE_IMAGE and env :: collaborators
  assumes normal: "\<not> m_PolygonFillMode s"
    and arc: "m_Iterpolation s = GERB_INTERPOL_ARC_NEG \<or> m_Iterpolation s = GERB_INTERPOL_ARC_POS"
  defines "sz \<equiv> fst (tool_params s)" and "dcode \<equiv> fst (snd (tool_params s))"
  defines "arc_item \<equiv>
     fillArcGBRITEM (new_GERBER_DRAW_ITEM True) (m_NetAttributeDict s) dcode
       (m_PreviousPos s) (m_CurrentPos s) (m_IJPos s) sz
       (m_Iterpolation s \<noteq> GERB_INTERPOL_ARC_NEG) (m_360Arc_enbl s)
       (LayerParams_m_LayerNegative s)"
  defines "line_item \<equiv>
     (new_GERBER_DRAW_ITEM True)
       \<lparr>m_Size := sz, m_Start := m_PreviousPos s, m_End := m_CurrentPos s, m_DCode := dcode,
        m_LayerNegative := LayerParams_m_LayerNegative s,
        m_NetAttributes := m_NetAttributeDict s\<rparr>"
  defines "item \<equiv> (if m_LastCoordIsIJPos s then arc_item else line_item)"
  defines "s1 \<equiv> s\<lparr>m_Last_Pen_Command := 1, m_Exposure := True,
                    m_Drawings := m_Drawings s @ [item], m_LastCoordIsIJPos := False\<rparr>"
  defines "s' \<equiv> (StepAndRepeatItem env item s1)\<lparr>m_PreviousPos := m_CurrentPos s\<rparr>"
  shows "Execute_DCODE_Command env 1 s = Some (True, s')
         \<and> m_Drawings s' = m_Drawings s @ [item] @ StepAndRepeat_copies env s1 item
         \<and> (m_LastCoordIsIJPos s \<longrightarrow> m_Shape item = GBR_ARC)
         \<and> (\<not> m_LastCoordIsIJPos s \<longrightarrow>
               m_Shape item = GBR_SEGMENT \<and> m_Start item = m_PreviousPos s
               \<and> m_End item = m_CurrentPos s)
         \<and> \<not> m_LastCoordIsIJPos s'
         \<and> m_PreviousPos s' = m_CurrentPos s \<and> m_CurrentPos s' = m_CurrentPos s
         \<and> m_MessagesList s' = m_MessagesList s"
proof -
  let ?s0 = "s\<lparr>m_Last_Pen_Command := 1\<rparr>"
  have tp: "tool_params (?s0\<lparr>m_Exposure := True\<rparr>) = (sz, dcode, snd (snd (tool_params s)))"
    by (simp add: tool_params_def GetDCODE_def sz_def dcode_def)
  have disp: "Execute_DCODE_Command env 1 s = normal_D01 env ?s0"
    using normal by (simp add: Execute_DCODE_Command_def pen_code_below_FIRST_DCODE)
  have nl: "m_Iterpolation s \<noteq> GERB_INTERPOL_LINEAR_1X" using arc by auto
  have cw: "(if m_Iterpolation s = GERB_INTERPOL_ARC_NEG then False else True)
              = (m_Iterpolation s \<noteq> GERB_INTERPOL_ARC_NEG)" by simp
  have line: "fillLineGBRITEM (new_GERBER_DRAW_ITEM True) (m_NetAttributeDict s) dcode
                (m_PreviousPos s) (m_CurrentPos s) sz (LayerParams_m_LayerNegative s)
              = Some line_item"
    by (simp add: fillLineGBRITEM_def line_item_def new_GERBER_DRAW_ITEM_def
        SetLayerPolarity_def SetNetAttributes_def)
  have run: "Execute_DCODE_Command env 1 s =
               Some (True, (StepAndRepeatItem env item s1)\<lparr>m_PreviousPos := m_CurrentPos s\<rparr>)"
  proof (cases "m_LastCoordIsIJPos s")
    case True
    then show ?thesis
      unfolding disp normal_D01_def Let_def tp
      using nl arc
      by (simp add: cw item_def s1_def arc_item_def StepAndRepeatItem_def)
  next
    case False
    then have s1: "s\<lparr>m_Last_Pen_Command := 1, m_Exposure := True,
                      m_Drawings := m_Drawings s @ [line_item]\<rparr> = s1"
      by (intro GERBER_FILE_IMAGE.equality) (simp_all add: s1_def item_def)
    from False have item: "item = line_item" by (simp add: item_def)
    have cur: "m_CurrentPos s1 = m_CurrentPos s" by (simp add: s1_def)
    show ?thesis
      unfolding disp normal_D01_def Let_def tp
      using nl arc False
      by (simp add: line s1 item cur StepAndRepeatItem_def)
  qed
  have arcs: "m_Shape arc_item = GBR_ARC"
    by (simp add: arc_item_def fillArcGBRITEM_def SetLayerPolarity_def SetNetAttributes_def Let_def)
  have lines: "m_Shape line_item = GBR_SEGMENT" "m_Start line_item = m_PreviousPos s"
    "m_End line_item = m_CurrentPos s"
    by (simp_all add: line_item_def new_GERBER_DRAW_ITEM_def)
  have post: "m_Drawings s' = m_Drawings s @ [item] @ StepAndRepeat_copies env s1 item"
    "\<not> m_LastCoordIsIJPos s'" "m_PreviousPos s' = m_CurrentPos s"
    "m_CurrentPos s' = m_CurrentPos s" "m_MessagesList s' = m_MessagesList s"
    by (simp_all add: s'_def s1_def StepAndRepeatItem_def)
  from run have "Execute_DCODE_Command env 1 s = Some (True, s')"
    by (simp only: s'_def)
  with arcs lines post show ?thesis by (simp add: item_def)
qed

theorem C9_normal_D01_arc_mode_witness:
  "\<not> m_PolygonFillMode image_arc_pending
   \<and> m_Iterpolation image_arc_pending = GERB_INTERPOL_ARC_POS
   \<and> m_LastCoordIsIJPos image_arc_pending
   \<and> (case Execute_DCODE_Command env_example 1 image_arc_pending of
         Some (ok, s') \<Rightarrow>
           ok \<and> map m_Shape (m_Drawings s') = [GBR_ARC]
           \<and> map m_ArcCentre (m_Drawings s') = [\<lparr>x = 5, y = 0\<rparr>]
           \<and> \<not> m_LastCoordIsIJPos s' \<and> m_PreviousPos s' = \<lparr>x = 10, y = 0\<rparr>
       | None \<Rightarrow> False)
   \<and> \<not> m_PolygonFillMode image_arc_no_center
   \<and> m_Iterpolation image_arc_no_center = GERB_INTERPOL_ARC_NEG
   \<and> \<not> m_LastCoordIsIJPos image_arc_no_center
   \<and> (case Execute_DCODE_Command env_example 1 image_arc_no_center of
         Some (ok, s') \<Rightarrow>
           ok \<and> map m_Shape (m_Drawings s') = [GBR_SEGMENT]
           \<and> map m_Start (m_Drawings s') = [\<lparr>x = 0, y = 0\<rparr>]
           \<and> map m_End (m_Drawings s') = [\<lparr>x = 10, y = 0\<rparr>]
           \<and> m_MessagesList s' = [] \<and> m_PreviousPos s' = \<lparr>x = 10, y = 0\<rparr>
       | None \<Rightarrow> False)"
proof -
  have h1: "\<not> m_PolygonFillMode image_arc_pending"
    "m_Iterpolation image_arc_pending = GERB_INTERPOL_ARC_NEG
     \<or> m_Iterpolation image_arc_pending = GERB_INTERPOL_ARC_POS"
    by (simp_all add: image_arc_pending_def image_example_def)
  have h2: "\<not> m_PolygonFillMode image_arc_no_center"
    "m_Iterpolation image_arc_no_center = GERB_INTERPOL_ARC_NEG
     \<or> m_Iterpolation image_arc_no_center = GERB_INTERPOL_ARC_POS"
    by (simp_all add: image_arc_no_center_def image_example_def)
  show ?thesis
    using C9_normal_D01_arc_mode [OF h1, of env_example]
      C9_normal_D01_arc_mode [OF h2, of env_example]
    by (simp add: image_arc_pending_def image_arc_no_center_def image_example_def
        env_example_def tool_params_def GetDCODE_def fillArcGBRITEM_def new_GERBER_DRAW_ITEM_def
        SetLayerPolarity_def SetNetAttributes_def pt_add_def wrap32_def StepAndRepeatItem_def
        Let_def)
qed


lemma single_quadrant_flag_false_example:
  "single_quadrant_center \<lparr>x = 0, y = 0\<rparr> \<lparr>x = 10, y = 0\<rparr> \<lparr>x = 5, y = 0\<rparr> False
     = \<lparr>x = 5, y = 0\<rparr>"
  by (simp add: single_quadrant_center_def pt_sub_def pt_neg_def wrap32_def Let_def)

text \<open>
  Claim C4. By the header comment of rs274d.cpp the clockwise circular interpolation is
  \<^verbatim>\<open>G02\<close>, the first of the two circular G-codes, for which \<^verbatim>\<open>Execute_G_Command\<close>
  stores \<open>GERB_INTERPOL_ARC_NEG\<close>; for that mode \<^verbatim>\<open>Execute_DCODE_Command\<close> passes
  \<^verbatim>\<open>aClockwise = false\<close> to \<^verbatim>\<open>fillArcGBRITEM\<close>. So for the single-quadrant clockwise
  arc from \<open>(0, 0)\<close> to \<open>(10, 0)\<close> with relative-centre magnitude \<open>(5, 0)\<close> the quadrant
  test negates \<open>center.x\<close>, the whole vector is negated again, and the centre stored on
  the item is \<open>(5, 0)\<close>: this holds of \<^verbatim>\<open>fillArcGBRITEM\<close> called with the flag false, and
  of the arc item that pen code 1 creates after \<^verbatim>\<open>G02\<close> in normal mode with 360 degree
  arcs off and the relative centre pending.
\<close>

theorem C4_clockwise_center:
  fixes s0 :: GERBER_FILE_IMAGE and env :: collaborators and cursor :: "string option"
  defines "s \<equiv> s0\<lparr>m_Iterpolation := GERB_INTERPOL_ARC_NEG\<rparr>"
  assumes normal: "\<not> m_PolygonFillMode s0" and single: "\<not> m_360Arc_enbl s0"
    and pending: "m_LastCoordIsIJPos s0"
    and prev: "m_PreviousPos s0 = \<lparr>x = 0, y = 0\<rparr>"
    and cur: "m_CurrentPos s0 = \<lparr>x = 10, y = 0\<rparr>"
    and ij: "m_IJPos s0 = \<lparr>x = 5, y = 0\<rparr>"
  shows "m_ArcCentre (fillArcGBRITEM it na d \<lparr>x = 0, y = 0\<rparr> \<lparr>x = 10, y = 0\<rparr> \<lparr>x = 5, y = 0\<rparr>
                        sz False False neg) = \<lparr>x = 5, y = 0\<rparr>
         \<and> Execute_G_Command env cursor GC_CIRCLE_NEG_INTERPOL s0 = Some (True, cursor, s)
         \<and> (\<exists>s'. Execute_DCODE_Command env 1 s = Some (True, s')
                  \<and> m_Shape (m_Drawings s' ! length (m_Drawings s0)) = GBR_ARC
                  \<and> m_ArcCentre (m_Drawings s' ! length (m_Drawings s0)) = \<lparr>x = 5, y = 0\<rparr>)"
proof -
  have centre: "m_ArcCentre (fillArcGBRITEM it' na' d' \<lparr>x = 0, y = 0\<rparr> \<lparr>x = 10, y = 0\<rparr>
                  \<lparr>x = 5, y = 0\<rparr> sz' False False neg') = \<lparr>x = 5, y = 0\<rparr>"
    for it' na' d' sz' neg'
    by (simp add: fillArcGBRITEM_ArcCentre single_quadrant_flag_false_example pt_add_def
        wrap32_def)
  have shape: "m_Shape (fillArcGBRITEM it' na' d' S' E' C' sz' k' mq' neg') = GBR_ARC"
    for it' na' d' S' E' C' sz' k' mq' neg'
    by (simp add: fillArcGBRITEM_def SetLayerPolarity_def SetNetAttributes_def Let_def)
  have g02: "Execute_G_Command env cursor GC_CIRCLE_NEG_INTERPOL s0 = Some (True, cursor, s)"
    by (simp add: Execute_G_Command_def s_def)
  let ?s1 = "s\<lparr>m_Last_Pen_Command := 1\<rparr>"
  obtain sz1 dc1 ap1 where tp: "tool_params (?s1\<lparr>m_Exposure := True\<rparr>) = (sz1, dc1, ap1)"
    by (cases "tool_params (?s1\<lparr>m_Exposure := True\<rparr>)") auto
  define item where "item = fillArcGBRITEM (new_GERBER_DRAW_ITEM True) (m_NetAttributeDict s0)
      dc1 \<lparr>x = 0, y = 0\<rparr> \<lparr>x = 10, y = 0\<rparr> \<lparr>x = 5, y = 0\<rparr> sz1 False False
      (LayerParams_m_LayerNegative s0)"
  have disp: "Execute_DCODE_Command env 1 s = normal_D01 env ?s1"
    using normal by (simp add: Execute_DCODE_Command_def pen_code_below_FIRST_DCODE s_def)
  have "\<exists>s'. normal_D01 env ?s1 = Some (True, s')
             \<and> m_Drawings s' ! length (m_Drawings s0) = item"
    unfolding normal_D01_def Let_def tp
    using single pending prev cur ij
    by (simp add: s_def item_def StepAndRepeatItem_def nth_append)
  then show ?thesis
    using g02 centre [of it na d sz neg] unfolding disp item_def
    by (auto simp add: centre shape)
qed

theorem C4_clockwise_center_witness:
  "\<not> m_PolygonFillMode image_G02_pending \<and> \<not> m_360Arc_enbl image_G02_pending
   \<and> m_LastCoordIsIJPos image_G02_pending
   \<and> m_PreviousPos image_G02_pending = \<lparr>x = 0, y = 0\<rparr>
   \<and> m_CurrentPos image_G02_pending = \<lparr>x = 10, y = 0\<rparr>
   \<and> m_IJPos image_G02_pending = \<lparr>x = 5, y = 0\<rparr>
   \<and> (case Execute_G_Command env_example (Some ''X10Y0I5J0D01*'') GC_CIRCLE_NEG_INTERPOL
              image_G02_pending of
         None \<Rightarrow> False
       | Some (ok, t, s) \<Rightarrow>
           (case Execute_DCODE_Command env_example 1 s of
              None \<Rightarrow> False
            | Some (ok', s') \<Rightarrow>
                ok \<and> ok' \<and> m_Shape (m_Drawings s' ! 0) = GBR_ARC
                \<and> m_ArcCentre (m_Drawings s' ! 0) = \<lparr>x = 5, y = 0\<rparr>))"
proof -
  have h: "\<not> m_PolygonFillMode image_G02_pending" "\<not> m_360Arc_enbl image_G02_pending"
    "m_LastCoordIsIJPos image_G02_pending"
    "m_PreviousPos image_G02_pending = \<lparr>x = 0, y = 0\<rparr>"
    "m_CurrentPos image_G02_pending = \<lparr>x = 10, y = 0\<rparr>"
    "m_IJPos image_G02_pending = \<lparr>x = 5, y = 0\<rparr>"
    by (simp_all add: image_G02_pending_def image_example_def)
  have len: "length (m_Drawings image_G02_pending) = 0"
    by (simp add: image_G02_pending_def image_example_def)
  show ?thesis
    using h C4_clockwise_center [OF h, where env = env_example
        and cursor = "Some ''X10Y0I5J0D01*''" and it = "new_GERBER_DRAW_ITEM True"
        and na = "[]" and d = 0 and sz = "\<lparr>x = 0, y = 0\<rparr>" and neg = False]
    by (auto simp add: len)
qed

subsection \<open>Closing a region\<close>

text \<open>Pen code 1 in polygon-fill mode, whenever it returns, leaves a region open: exposure
  is on and the last item of the list has an outline with at least one vertex. This is
  the state in which the two closing commands are considered below.\<close>

lemma polygon_D01_opens_region:
  assumes "polygon_D01 env s = Some (ok, s')"
  shows "m_Exposure s' \<and> m_Drawings s' \<noteq> []
         \<and> m_Polygon (last (m_Drawings s')) \<noteq> []
         \<and> last (m_Polygon (last (m_Drawings s'))) \<noteq> []"
  using assms
  by (auto simp add: polygon_D01_def Let_def set_last_item_def poly_Append_def
      poly_OutlineCount_def poly_NewOutline_def
      split: if_splits option.splits dest: fillArcPOLY_outline)

lemma close_polygon_open_region:
  assumes "m_Polygon (last (m_Drawings s)) \<noteq> []"
    and "last (m_Polygon (last (m_Drawings s))) \<noteq> []"
  shows "close_polygon env s =
           Some (StepAndRepeatItem env
                   ((last (m_Drawings s))
                      \<lparr>m_Polygon := butlast (m_Polygon (last (m_Drawings s)))
                          @ [last (m_Polygon (last (m_Drawings s)))
                             @ [hd (last (m_Polygon (last (m_Drawings s))))]]\<rparr>)
                   (set_last_item
                      ((last (m_Drawings s))
                         \<lparr>m_Polygon := butlast (m_Polygon (last (m_Drawings s)))
                             @ [last (m_Polygon (last (m_Drawings s)))
                                @ [hd (last (m_Polygon (last (m_Drawings s))))]]\<rparr>) s))"
  using assms
  by (simp add: close_polygon_def poly_Vertex_def poly_Append_def Let_def hd_conv_nth)

lemma nth_closed_item:
  "ds \<noteq> [] \<Longrightarrow> (butlast ds @ [g] @ cs) ! (length ds - 1) = g"
  by (simp add: nth_append)

lemma image_region_open_reached:
  "Execute_G_Command env_example (Some ''*'') GC_TURN_ON_POLY_FILL image_example =
     Some (True, Some ''*'', image_example\<lparr>m_PolygonFillMode := True, m_Exposure := False\<rparr>)"
  "(case Execute_DCODE_Command env_example 1
           (image_example\<lparr>m_PolygonFillMode := True, m_Exposure := False\<rparr>) of
      None \<Rightarrow> None
    | Some (ok, s1) \<Rightarrow>
        Execute_DCODE_Command env_example 1 (s1\<lparr>m_CurrentPos := \<lparr>x = 10, y = 10\<rparr>\<rparr>))
   = Some (True, image_region_open)"
  by (simp_all add: Execute_G_Command_def Execute_DCODE_Command_def FIRST_DCODE_def
     polygon_D01_def Let_def image_example_def
     new_GERBER_DRAW_ITEM_def SetNetAttributes_def poly_OutlineCount_def poly_NewOutline_def
     poly_Append_def set_last_item_def image_region_open_def region_example_def)

text \<open>
  Claim C3. Let a region be open: exposure is on and the last item of the list has an
  outline with at least one vertex. Pen code 2 in polygon-fill mode, and the G-command
  that leaves polygon-fill mode, both succeed and leave at the position of that item the
  item with the first vertex of its outline appended at the end of the outline; hence
  the first vertex of the outline equals its last vertex.
\<close>

theorem C3_closed_region:
  fixes s :: GERBER_FILE_IMAGE and env :: collaborators and cursor :: "string option"
  defines "region \<equiv> last (m_Drawings s)"
  defines "outline \<equiv> last (m_Polygon region)"
  defines "closed_region \<equiv> region\<lparr>m_Polygon := butlast (m_Polygon region) @ [outline @ [hd outline]]\<rparr>"
  defines "idx \<equiv> length (m_Drawings s) - 1"
  assumes expo: "m_Exposure s" and ne: "m_Drawings s \<noteq> []"
    and ol: "m_Polygon region \<noteq> []" and v0: "outline \<noteq> []"
  shows "(m_PolygonFillMode s \<longrightarrow>
            (\<exists>s'. Execute_DCODE_Command env 2 s = Some (True, s') \<and> m_Drawings s' ! idx = closed_region))
         \<and> (\<exists>s'. Execute_G_Command env cursor GC_TURN_OFF_POLY_FILL s = Some (True, cursor, s')
                  \<and> m_Drawings s' ! idx = closed_region)
         \<and> last (m_Polygon closed_region) = outline @ [hd outline]
         \<and> hd (last (m_Polygon closed_region)) = last (last (m_Polygon closed_region))"
proof -
  let ?s0 = "s\<lparr>m_Last_Pen_Command := 2\<rparr>"
  have cl: "close_polygon env s = Some (StepAndRepeatItem env closed_region (set_last_item closed_region s))"
    using ol v0 close_polygon_open_region [of s env]
    by (simp add: region_def outline_def closed_region_def)
  have cl0: "close_polygon env ?s0 = Some (StepAndRepeatItem env closed_region (set_last_item closed_region ?s0))"
    using ol v0 close_polygon_open_region [of ?s0 env]
    by (simp add: region_def outline_def closed_region_def)
  have nth: "m_Drawings (StepAndRepeatItem env closed_region (set_last_item closed_region s)) ! idx = closed_region"
    "m_Drawings (StepAndRepeatItem env closed_region (set_last_item closed_region ?s0)) ! idx = closed_region"
    using nth_closed_item [OF ne]
    by (simp_all add: StepAndRepeatItem_def set_last_item_def idx_def)
  have d02: "Execute_DCODE_Command env 2 s =
               Some (True, (StepAndRepeatItem env closed_region (set_last_item closed_region ?s0))
                              \<lparr>m_Exposure := False, m_PreviousPos := m_CurrentPos s,
                               m_PolygonFillModeState := 0\<rparr>)"
    if "m_PolygonFillMode s"
    using that expo ne cl0
    by (simp add: Execute_DCODE_Command_def pen_code_below_FIRST_DCODE polygon_D02_def
        StepAndRepeatItem_def set_last_item_def Let_def)
  have g37: "Execute_G_Command env cursor GC_TURN_OFF_POLY_FILL s =
               Some (True, cursor, (StepAndRepeatItem env closed_region (set_last_item closed_region s))
                              \<lparr>m_Exposure := False, m_PolygonFillMode := False,
                               m_PolygonFillModeState := 0,
                               m_Iterpolation := GERB_INTERPOL_LINEAR_1X\<rparr>)"
    using expo ne cl by (simp add: Execute_G_Command_def)
  have shape: "last (m_Polygon closed_region) = outline @ [hd outline]"
    by (simp add: closed_region_def)
  have ends: "hd (outline @ [hd outline]) = last (outline @ [hd outline])"
    using v0 by simp
  show ?thesis
    using d02 g37 nth shape ends by simp
qed


theorem C3_closed_region_witness:
  "m_Exposure image_region_open \<and> m_Drawings image_region_open \<noteq> []
   \<and> m_Polygon (last (m_Drawings image_region_open)) \<noteq> []
   \<and> last (m_Polygon (last (m_Drawings image_region_open))) \<noteq> []
   \<and> m_PolygonFillMode image_region_open
   \<and> (case Execute_DCODE_Command env_example 2 image_region_open of
         Some (ok, s') \<Rightarrow> ok \<and> m_Polygon (m_Drawings s' ! 0) =
           [[\<lparr>x = 0, y = 0\<rparr>, \<lparr>x = 10, y = 0\<rparr>, \<lparr>x = 10, y = 10\<rparr>, \<lparr>x = 0, y = 0\<rparr>]]
       | None \<Rightarrow> False)
   \<and> (case Execute_G_Command env_example (Some ''*'') GC_TURN_OFF_POLY_FILL image_region_open of
         Some (ok, t, s') \<Rightarrow> ok \<and> m_Polygon (m_Drawings s' ! 0) =
           [[\<lparr>x = 0, y = 0\<rparr>, \<lparr>x = 10, y = 0\<rparr>, \<lparr>x = 10, y = 10\<rparr>, \<lparr>x = 0, y = 0\<rparr>]]
       | None \<Rightarrow> False)"
proof -
  have h: "m_Exposure image_region_open" "m_Drawings image_region_open \<noteq> []"
    "m_Polygon (last (m_Drawings image_region_open)) \<noteq> []"
    "last (m_Polygon (last (m_Drawings image_region_open))) \<noteq> []"
    and pm: "m_PolygonFillMode image_region_open"
    by (simp_all add: image_region_open_def image_example_def region_example_def)
  have reg: "length (m_Drawings image_region_open) = 1"
    "m_Polygon (last (m_Drawings image_region_open)) =
       [[\<lparr>x = 0, y = 0\<rparr>, \<lparr>x = 10, y = 0\<rparr>, \<lparr>x = 10, y = 10\<rparr>]]"
    by (simp_all add: image_region_open_def region_example_def)
  show ?thesis
    using h pm C3_closed_region [OF h, of env_example "Some ''*''"]
    by (auto simp add: reg)
qed

subsection \<open>Commands that fail\<close>

lemma polygon_D01_ok: "polygon_D01 env s = Some (ok, s') \<Longrightarrow> ok"
  by (auto simp add: polygon_D01_def Let_def split: option.splits if_splits)

lemma polygon_D02_ok: "polygon_D02 env s = Some (ok, s') \<Longrightarrow> ok"
  by (auto simp add: polygon_D02_def Let_def split: option.splits if_splits)

lemma normal_D01_ok: "normal_D01 env s = Some (ok, s') \<Longrightarrow> ok"
  by (auto simp add: normal_D01_def Let_def split: option.splits if_splits prod.splits)

lemma normal_D03_ok: "normal_D03 env s = Some (ok, s') \<Longrightarrow> ok"
  by (auto simp add: normal_D03_def Let_def split: option.splits if_splits prod.splits)

lemma G_fail:
  "Execute_G_Command env cursor g s = Some (False, cursor', s') \<Longrightarrow>
     s' = s\<lparr>m_MessagesList := m_MessagesList s'\<rparr>"
  by (cases g)
     (auto simp add: Execute_G_Command_def AddMessageToList_def Let_def
       split: option.splits if_splits prod.splits)

lemma D_fail:
  "Execute_DCODE_Command env d s = Some (False, s') \<Longrightarrow> s' = s\<lparr>m_Last_Pen_Command := d\<rparr>"
  by (auto simp add: Execute_DCODE_Command_def Let_def
       dest: polygon_D01_ok polygon_D02_ok normal_D01_ok normal_D03_ok split: if_splits)


text \<open>
  Claim C5. The claim says that a G-command or D-command that returns failure leaves the
  interpreter state unchanged, the last pen command included. Pen code 3 in polygon-fill
  mode returns failure, yet \<^verbatim>\<open>Execute_DCODE_Command\<close> has stored the code in
  \<open>m_Last_Pen_Command\<close> before it looks at the mode: after a move (pen code 2) the
  last pen command is 3.
\<close>

theorem C5_failure_atomic_counterexample:
  "Execute_DCODE_Command env_example 3 image_polygon_mode =
     Some (False, image_polygon_mode\<lparr>m_Last_Pen_Command := 3\<rparr>)
   \<and> m_Last_Pen_Command (image_polygon_mode\<lparr>m_Last_Pen_Command := 3\<rparr>)
       \<noteq> m_Last_Pen_Command image_polygon_mode"
  by (simp add: Execute_DCODE_Command_def FIRST_DCODE_def image_polygon_mode_def
      image_example_def)

text \<open>
  Claim C5, amended. A G-command that returns failure leaves the image unchanged but for
  the message list; a D-command that returns failure leaves the image unchanged but for
  \<open>m_Last_Pen_Command\<close>, which holds the code of the failed command. In both cases
  positions, interpolation mode, units, addressing, the 360 degree flag, the polygon-fill
  flag, exposure and the selected tool are unchanged and no draw item is created.
\<close>

theorem C5_failure_amended:
  "(Execute_G_Command env cursor g s = Some (False, cursor', sg) \<longrightarrow>
      sg = s\<lparr>m_MessagesList := m_MessagesList sg\<rparr> \<and> m_Drawings sg = m_Drawings s)
   \<and> (Execute_DCODE_Command env d s = Some (False, sd) \<longrightarrow>
      sd = s\<lparr>m_Last_Pen_Command := d\<rparr> \<and> m_Drawings sd = m_Drawings s)"
proof -
  have "m_Drawings sg = m_Drawings s" if "sg = s\<lparr>m_MessagesList := m_MessagesList sg\<rparr>"
  proof -
    have "m_Drawings sg = m_Drawings (s\<lparr>m_MessagesList := m_MessagesList sg\<rparr>)"
      using that by simp
    then show ?thesis by simp
  qed
  moreover have "m_Drawings sd = m_Drawings s" if "sd = s\<lparr>m_Last_Pen_Command := d\<rparr>"
    using that by simp
  ultimately show ?thesis
    using G_fail [of env cursor g s cursor' sg] D_fail [of env d s sd] by blast
qed

theorem C5_failure_amended_witness:
  "Execute_G_Command env_example (Some ''D05*'') GC_SELECT_TOOL image_example =
     Some (False, Some ''*'', image_example)
   \<and> image_example = image_example\<lparr>m_MessagesList := m_MessagesList image_example\<rparr>
   \<and> Execute_DCODE_Command env_example 3 image_polygon_mode =
       Some (False, image_polygon_mode\<lparr>m_Last_Pen_Command := 3\<rparr>)
   \<and> m_Drawings (image_polygon_mode\<lparr>m_Last_Pen_Command := 3\<rparr>) = m_Drawings image_polygon_mode"
proof -
  have hG: "Execute_G_Command env_example (Some ''D05*'') GC_SELECT_TOOL image_example =
              Some (False, Some ''*'', image_example)"
    by (simp add: Execute_G_Command_def DCodeNumber_def env_example_def atoi_digits_def
        FIRST_DCODE_def Let_def)
  have hD: "Execute_DCODE_Command env_example 3 image_polygon_mode =
              Some (False, image_polygon_mode\<lparr>m_Last_Pen_Command := 3\<rparr>)"
    by (simp add: Execute_DCODE_Command_def FIRST_DCODE_def image_polygon_mode_def
        image_example_def)
  show ?thesis
    using hG hD
      C5_failure_amended [of env_example "Some ''D05*''" GC_SELECT_TOOL image_example "Some ''*''"
        image_example 3 "image_polygon_mode\<lparr>m_Last_Pen_Command := 3\<rparr>"]
    by simp
qed

end
